theory Spec2Isabelle
  imports Main "HOL-Library.Word" "HOL-Library.Sublist"
begin

section \<open>JavaScript strings\<close>

text \<open>
  A JavaScript string is a sequence of UTF-16 code units; \<open>length\<close>, \<open>startsWith\<close>,
  \<open>endsWith\<close>, \<open>trim\<close> and the regular expression classes all work on code units.
  String literals of the source are embedded with \<open>js\<close>.
\<close>

type_synonym code_unit = "16 word"
type_synonym jstring = "code_unit list"

definition js :: "string \<Rightarrow> jstring" where
  "js s = map of_char s"

text \<open>
  \<open>String.prototype.trim\<close> removes the ECMAScript WhiteSpace and LineTerminator code
  points from both ends: TAB, LF, VT, FF, CR, SP, NBSP, U+1680, U+2000..U+200A, LS, PS,
  U+202F, U+205F, U+3000 and the byte order mark U+FEFF.
\<close>

definition isWhiteSpace :: "code_unit \<Rightarrow> bool" where
  "isWhiteSpace c \<longleftrightarrow>
     c \<in> {0x0009, 0x000A, 0x000B, 0x000C, 0x000D, 0x0020, 0x00A0, 0x1680,
          0x2028, 0x2029, 0x202F, 0x205F, 0x3000, 0xFEFF}
     \<or> (0x2000 \<le> c \<and> c \<le> 0x200A)"

definition trim :: "jstring \<Rightarrow> jstring" where
  "trim s = rev (dropWhile isWhiteSpace (rev (dropWhile isWhiteSpace s)))"

text \<open>The class \<open>\w\<close> of a regular expression without flags: \<open>[A-Za-z0-9_]\<close>.\<close>

definition isWordChar :: "code_unit \<Rightarrow> bool" where
  "isWordChar c \<longleftrightarrow>
     (0x41 \<le> c \<and> c \<le> 0x5A) \<or> (0x61 \<le> c \<and> c \<le> 0x7A) \<or>
     (0x30 \<le> c \<and> c \<le> 0x39) \<or> c = 0x5F"

section \<open>modtool.ts: validateBlockName\<close>

datatype InputBoxValidationSeverity = Info | Warning | Error

record InputBoxValidationMessage =
  message :: jstring
  severity :: InputBoxValidationSeverity

text \<open>
  The literal \<open>/^([\w,\_]+)$/\<close> of the source, applied with \<open>test\<close>: the whole string
  (no \<open>m\<close> flag, so \<open>^\<close> and \<open>$\<close> are the ends of the input) is one or more code units
  of the class \<open>[\w,\_]\<close>. Inside a class the comma is an ordinary member and \<open>\_\<close> is
  the underscore, so the class is \<open>\w\<close> together with the comma U+002C.
\<close>

definition blockNameClass :: "code_unit \<Rightarrow> bool" where
  "blockNameClass c \<longleftrightarrow> isWordChar c \<or> c = 0x2C \<or> c = 0x5F"

definition blockNameRegExp_test :: "jstring \<Rightarrow> bool" where
  "blockNameRegExp_test name \<longleftrightarrow> name \<noteq> [] \<and> list_all blockNameClass name"

text \<open>
  \<open>validateBlockName(existingBlocks)(value)\<close>; the verdict \<open>null\<close> is \<open>None\<close>. The
  warning object of the source also carries the inert property \<open>then: null\<close>.
\<close>

definition validateBlockName :: "jstring set \<Rightarrow> jstring \<Rightarrow> InputBoxValidationMessage option" where
  "validateBlockName existingBlocks val =
     (let name = trim val in
      if length name = 0 then
        Some \<lparr>message = js ''Name cannot be empty'', severity = Error\<rparr>
      else if \<not> blockNameRegExp_test name then
        Some \<lparr>message = js ''Name can only contain ASCII letters, digits and underscores'',
              severity = Error\<rparr>
      else if length name < 3 then
        Some \<lparr>message = js ''Descriptive names usually contain at least 3 symbols'',
              severity = Warning\<rparr>
      else if name \<in> existingBlocks then
        Some \<lparr>message = js ''Block with that name is already present'', severity = Error\<rparr>
      else None)"

section \<open>The host platform\<close>

text \<open>\<open>startsWith\<close> and \<open>endsWith\<close> of \<open>String.prototype\<close>.\<close>

definition startsWith :: "jstring \<Rightarrow> jstring \<Rightarrow> bool" where
  "startsWith s p \<longleftrightarrow> take (length p) s = p"

definition endsWith :: "jstring \<Rightarrow> jstring \<Rightarrow> bool" where
  "endsWith s p \<longleftrightarrow> length p \<le> length s \<and> drop (length s - length p) s = p"

text \<open>
  \<open>extname\<close> of Node's \<open>path\<close> module, on the name of a directory entry (a name without
  a path separator): the part from the last dot on, and the empty string when there is
  no dot, when the only dot is the first character, or when the name is \<open>..\<close>.
\<close>

definition extname :: "jstring \<Rightarrow> jstring" where
  "extname name =
     (let upToDot = dropWhile (\<lambda>c. c \<noteq> 0x2E) (rev name) in
      if upToDot = [] \<or> length upToDot = 1 \<or> name = [0x2E, 0x2E] then []
      else drop (length upToDot - 1) name)"

text \<open>
  \<open>FileType\<close> of the editor API is a bit mask: \<open>Unknown = 0\<close>, \<open>File = 1\<close>,
  \<open>Directory = 2\<close>, \<open>SymbolicLink = 64\<close>; a symbolic link to a file is \<open>65\<close>.
\<close>

type_synonym FileType = nat

definition FileType_File :: FileType where
  "FileType_File = 1"

definition FileType_Directory :: FileType where
  "FileType_Directory = 2"

text \<open>
  A \<open>Uri\<close> is kept symbolic: \<open>Uri.file(path)\<close> and \<open>Uri.joinPath(base, ...segments)\<close>.
\<close>

datatype Uri = Uri_file jstring | Uri_joinPath Uri "jstring list"

datatype FileSystemError =
  FileNotFound | FileNotADirectory | NoPermissions | Unavailable

text \<open>
  Everything the source can throw: the rejection of \<open>workspace.fs.readDirectory\<close>, the
  \<open>Error\<close> of \<open>mapBlockToTreeItem\<close>, and the \<open>SyntaxError\<close> of the \<open>RegExp\<close>
  constructor on a string that is not a regular expression.
\<close>

datatype error = FsError FileSystemError | JsError jstring | SyntaxError jstring

text \<open>
  The host functions the source calls, as parameters:
  \<^item> \<open>readDirectory\<close> is \<open>workspace.fs.readDirectory\<close>: the entries \<open>(name, type)\<close> of
    a directory, or a file system error (\<open>FileNotFound\<close> for a directory that does
    not exist);
  \<^item> \<open>RegExp\<close> is the constructor of regular expressions without flags: \<open>None\<close> when
    the pattern is not well formed, otherwise the predicate \<open>test\<close> of the expression
    (stateless, since there is no \<open>g\<close> or \<open>y\<close> flag);
  \<^item> \<open>fsPath\<close> is the property of that name of a \<open>Uri\<close>;
  \<^item> \<open>join\<close> is \<open>path.join\<close>.
\<close>

record host =
  readDirectory :: "Uri \<Rightarrow> FileSystemError + (jstring \<times> FileType) list"
  RegExp :: "jstring \<Rightarrow> (jstring \<Rightarrow> bool) option"
  fsPath :: "Uri \<Rightarrow> jstring"
  join :: "jstring list \<Rightarrow> jstring"

text \<open>
  The predicates of the module \<open>blockFilter\<close> that \<open>getBlockFilesTree\<close> calls
  (\<open>import * as blocks from './blockFilter'\<close>), as parameters.
\<close>

record blockFilter =
  filterGrcBlocks :: "jstring \<Rightarrow> bool"
  filterXmlBlocks :: "jstring \<Rightarrow> bool"
  filterCppBlocks :: "jstring \<Rightarrow> bool"
  filterPyBlocks :: "jstring \<Rightarrow> bool"
  filterBlockTests :: "jstring \<Rightarrow> bool"
  filterCppImplFiles :: "jstring \<Rightarrow> bool"

section \<open>Exceptions as values\<close>

fun andThen :: "'e + 'a \<Rightarrow> ('a \<Rightarrow> 'e + 'b) \<Rightarrow> 'e + 'b" where
  "andThen (Inl e) f = Inl e"
| "andThen (Inr x) f = f x"

text \<open>\<open>Array.prototype.map\<close> with a callback that may throw: the first throw ends it.\<close>

fun mapM :: "('a \<Rightarrow> 'e + 'b) \<Rightarrow> 'a list \<Rightarrow> 'e + 'b list" where
  "mapM f [] = Inr []"
| "mapM f (x # xs) = andThen (f x) (\<lambda>y. andThen (mapM f xs) (\<lambda>ys. Inr (y # ys)))"

text \<open>\<open>Array.prototype.filter\<close> with a callback that may throw.\<close>

fun filterM :: "('a \<Rightarrow> 'e + bool) \<Rightarrow> 'a list \<Rightarrow> 'e + 'a list" where
  "filterM p [] = Inr []"
| "filterM p (x # xs) =
     andThen (p x) (\<lambda>keep. andThen (filterM p xs) (\<lambda>ys. Inr (if keep then x # ys else ys)))"

section \<open>moduleTree.ts: getBlockFilesTree\<close>

record Command =
  title :: jstring
  command :: jstring
  arguments :: "Uri list"

record TreeItem =
  resourceUri :: Uri
  description :: bool
  label :: jstring
  command :: Command

definition readdir :: "host \<Rightarrow> Uri \<Rightarrow> jstring list \<Rightarrow> error + (jstring \<times> FileType) list" where
  "readdir h baseUri pathSegments =
     (case readDirectory h (Uri_joinPath baseUri pathSegments) of
        Inl e \<Rightarrow> Inl (FsError e)
      | Inr entries \<Rightarrow> Inr entries)"

text \<open>
  The item that \<open>mapBlockToTreeItem(label, pathSegments)\<close> builds for the name of a
  regular file.
\<close>

definition treeItem :: "Uri \<Rightarrow> jstring \<Rightarrow> jstring list \<Rightarrow> jstring \<Rightarrow> TreeItem" where
  "treeItem baseUri lbl pathSegments name =
     \<lparr>resourceUri = Uri_joinPath baseUri (pathSegments @ [name]),
      description = True,
      label = lbl,
      command = \<lparr>title = js ''open'', command = js ''vscode.open'',
                 arguments = [Uri_joinPath baseUri (pathSegments @ [name])]\<rparr>\<rparr>"

definition mapBlockToTreeItem ::
  "Uri \<Rightarrow> jstring \<Rightarrow> jstring list \<Rightarrow> jstring \<times> FileType \<Rightarrow> error + TreeItem" where
  "mapBlockToTreeItem baseUri lbl pathSegments entry =
     (case entry of (name, fileType) \<Rightarrow>
        if fileType \<noteq> FileType_File then
          Inl (JsError (js ''Expected a file, got something else''))
        else Inr (treeItem baseUri lbl pathSegments name))"

text \<open>
  The callback of the \<open>map\<close> of \<open>cppImplFiles\<close>: the item of \<open>mapBlockToTreeItem\<close> with
  \<open>' header'\<close> or \<open>' source'\<close> appended to its label.
\<close>

definition mapCppImplToTreeItem :: "Uri \<Rightarrow> jstring \<times> FileType \<Rightarrow> error + TreeItem" where
  "mapCppImplToTreeItem baseUri entry =
     andThen (mapBlockToTreeItem baseUri (js ''Implementation'') [js ''lib''] entry)
       (\<lambda>item. Inr (item\<lparr>label :=
          label item @ (if extname (fst entry) = js ''.h'' then js '' header'' else js '' source'')\<rparr>))"

text \<open>
  What the two callbacks return on a regular file: \<open>isFile\<close> is the test
  \<open>fileType === FileType.File\<close>, \<open>cppImplItem\<close> the item of the \<open>lib\<close> section.
\<close>

definition isFile :: "jstring \<times> FileType \<Rightarrow> bool" where
  "isFile entry \<longleftrightarrow> snd entry = FileType_File"

definition cppImplItem :: "Uri \<Rightarrow> jstring \<Rightarrow> TreeItem" where
  "cppImplItem baseUri name =
     treeItem baseUri
       (js ''Implementation'' @ (if extname name = js ''.h'' then js '' header'' else js '' source''))
       [js ''lib''] name"

text \<open>The callbacks of the six \<open>filter\<close> calls, on an entry \<open>value = [name, fileType]\<close>.\<close>

definition grcFilter :: "blockFilter \<Rightarrow> jstring \<Rightarrow> jstring \<Rightarrow> jstring \<times> FileType \<Rightarrow> bool" where
  "grcFilter blocks block moduleName entry \<longleftrightarrow>
     startsWith (fst entry) (moduleName @ js ''_'' @ block) \<and>
     (filterGrcBlocks blocks (fst entry) \<or> filterXmlBlocks blocks (fst entry))"

definition cppFilter :: "blockFilter \<Rightarrow> jstring \<Rightarrow> jstring \<times> FileType \<Rightarrow> bool" where
  "cppFilter blocks block entry \<longleftrightarrow>
     startsWith (fst entry) block \<and> filterCppBlocks blocks (fst entry)"

definition pyFilter :: "blockFilter \<Rightarrow> jstring \<Rightarrow> jstring \<times> FileType \<Rightarrow> bool" where
  "pyFilter blocks block entry \<longleftrightarrow>
     startsWith (fst entry) block \<and> filterPyBlocks blocks (fst entry)"

definition pyTestFilter :: "blockFilter \<Rightarrow> jstring \<Rightarrow> jstring \<times> FileType \<Rightarrow> bool" where
  "pyTestFilter blocks block entry \<longleftrightarrow>
     filterBlockTests blocks (fst entry) \<and> endsWith (fst entry) (block @ js ''.py'')"

definition cppImplFilter :: "blockFilter \<Rightarrow> jstring \<Rightarrow> jstring \<times> FileType \<Rightarrow> bool" where
  "cppImplFilter blocks block entry \<longleftrightarrow>
     startsWith (fst entry) block \<and>
     (filterCppImplFiles blocks (fst entry) \<or> extname (fst entry) = js ''.h'')"

text \<open>
  In the template literal of \<open>cppTestFiles\<close> the escape \<open>\.\<close> is a plain dot, so the
  pattern is the block name followed by \<open>.(cc|cpp|cxx)\<close>; \<open>&&\<close> builds the expression
  only for a name that \<open>filterBlockTests\<close> accepts.
\<close>

definition cppTestFilter :: "host \<Rightarrow> blockFilter \<Rightarrow> jstring \<Rightarrow> jstring \<times> FileType \<Rightarrow> error + bool" where
  "cppTestFilter h blocks block entry =
     (if filterBlockTests blocks (fst entry) then
        (case RegExp h (block @ js ''.(cc|cpp|cxx)'') of
           None \<Rightarrow> Inl (SyntaxError (block @ js ''.(cc|cpp|cxx)''))
         | Some test \<Rightarrow> Inr (test (fst entry)))
      else Inr False)"

definition getBlockFilesTree ::
  "host \<Rightarrow> blockFilter \<Rightarrow> jstring \<Rightarrow> Uri \<Rightarrow> jstring \<Rightarrow> error + TreeItem list" where
  "getBlockFilesTree h blocks block baseUri moduleName =
     andThen (readdir h baseUri [js ''grc'']) (\<lambda>grcDir.
     andThen (mapM (mapBlockToTreeItem baseUri (js ''Block definition'') [js ''grc''])
               (filter (grcFilter blocks block moduleName) grcDir)) (\<lambda>grcFiles.
     andThen (readdir h baseUri [js ''include'', js ''gnuradio'', moduleName]) (\<lambda>cppDir.
     andThen (mapM (mapBlockToTreeItem baseUri (js ''Public header'')
                      [js ''include'', js ''gnuradio'', moduleName])
               (filter (cppFilter blocks block) cppDir)) (\<lambda>cppFiles.
     andThen (readdir h baseUri [js ''python'', moduleName]) (\<lambda>pyDir.
     andThen (mapM (mapBlockToTreeItem baseUri (js ''Implementation'') [js ''python'', moduleName])
               (filter (pyFilter blocks block) pyDir)) (\<lambda>pyFiles.
     andThen (mapM (mapBlockToTreeItem baseUri (js ''Python Tests'') [js ''python'', moduleName])
               (filter (pyTestFilter blocks block) pyDir)) (\<lambda>pyTestFiles.
     andThen (readdir h baseUri [js ''lib'']) (\<lambda>cppImplDir.
     andThen (mapM (mapCppImplToTreeItem baseUri) (filter (cppImplFilter blocks block) cppImplDir))
       (\<lambda>cppImplFiles.
     andThen (filterM (cppTestFilter h blocks block) cppImplDir) (\<lambda>cppTestEntries.
     andThen (mapM (mapBlockToTreeItem baseUri (js ''C++ Tests'') [js ''lib'']) cppTestEntries)
       (\<lambda>cppTestFiles.
     Inr (grcFiles @ pyFiles @ cppFiles @ cppImplFiles @ pyTestFiles @ cppTestFiles))))))))))))"

text \<open>
  The list of the \<open>return\<close> statement, from the entries that passed the six filters.
\<close>

definition blockFileItems ::
  "Uri \<Rightarrow> jstring \<Rightarrow> (jstring \<times> FileType) list \<Rightarrow> (jstring \<times> FileType) list \<Rightarrow>
   (jstring \<times> FileType) list \<Rightarrow> (jstring \<times> FileType) list \<Rightarrow> (jstring \<times> FileType) list \<Rightarrow>
   (jstring \<times> FileType) list \<Rightarrow> TreeItem list" where
  "blockFileItems baseUri moduleName grcEntries pyEntries cppEntries cppImplEntries
       pyTestEntries cppTestEntries =
     map (\<lambda>entry. treeItem baseUri (js ''Block definition'') [js ''grc''] (fst entry)) grcEntries @
     map (\<lambda>entry. treeItem baseUri (js ''Implementation'') [js ''python'', moduleName] (fst entry))
       pyEntries @
     map (\<lambda>entry. treeItem baseUri (js ''Public header'')
            [js ''include'', js ''gnuradio'', moduleName] (fst entry)) cppEntries @
     map (\<lambda>entry. cppImplItem baseUri (fst entry)) cppImplEntries @
     map (\<lambda>entry. treeItem baseUri (js ''Python Tests'') [js ''python'', moduleName] (fst entry))
       pyTestEntries @
     map (\<lambda>entry. treeItem baseUri (js ''C++ Tests'') [js ''lib''] (fst entry)) cppTestEntries"

text \<open>
  Some facet directory that can be listed holds an entry that passes one of the six
  filters of the query and is not a regular file.
\<close>

definition nonFileEntry :: "host \<Rightarrow> blockFilter \<Rightarrow> jstring \<Rightarrow> Uri \<Rightarrow> jstring \<Rightarrow> bool" where
  "nonFileEntry h blocks block baseUri moduleName \<longleftrightarrow>
     (case readDirectory h (Uri_joinPath baseUri [js ''grc'']) of
        Inl e \<Rightarrow> False
      | Inr grcDir \<Rightarrow>
          list_ex (\<lambda>entry. grcFilter blocks block moduleName entry \<and> \<not> isFile entry) grcDir) \<or>
     (case readDirectory h (Uri_joinPath baseUri [js ''include'', js ''gnuradio'', moduleName]) of
        Inl e \<Rightarrow> False
      | Inr cppDir \<Rightarrow> list_ex (\<lambda>entry. cppFilter blocks block entry \<and> \<not> isFile entry) cppDir) \<or>
     (case readDirectory h (Uri_joinPath baseUri [js ''python'', moduleName]) of
        Inl e \<Rightarrow> False
      | Inr pyDir \<Rightarrow>
          list_ex (\<lambda>entry. (pyFilter blocks block entry \<or> pyTestFilter blocks block entry) \<and>
                     \<not> isFile entry) pyDir) \<or>
     (case readDirectory h (Uri_joinPath baseUri [js ''lib'']) of
        Inl e \<Rightarrow> False
      | Inr cppImplDir \<Rightarrow>
          list_ex (\<lambda>entry. (cppImplFilter blocks block entry \<or>
                      cppTestFilter h blocks block entry = Inr True) \<and>
                     \<not> isFile entry) cppImplDir)"

text \<open>
  The same, where moreover every directory that \<open>getBlockFilesTree\<close> lists before it
  reaches the section of that entry can be listed: \<open>grc\<close>, then
  \<open>include/gnuradio/<moduleName>\<close>, then \<open>python/<moduleName>\<close>, then \<open>lib\<close>.
\<close>

definition nonFileEntryReached :: "host \<Rightarrow> blockFilter \<Rightarrow> jstring \<Rightarrow> Uri \<Rightarrow> jstring \<Rightarrow> bool" where
  "nonFileEntryReached h blocks block baseUri moduleName \<longleftrightarrow>
     (case readDirectory h (Uri_joinPath baseUri [js ''grc'']) of
        Inl e \<Rightarrow> False
      | Inr grcDir \<Rightarrow>
          list_ex (\<lambda>entry. grcFilter blocks block moduleName entry \<and> \<not> isFile entry) grcDir \<or>
          (case readDirectory h
                  (Uri_joinPath baseUri [js ''include'', js ''gnuradio'', moduleName]) of
             Inl e \<Rightarrow> False
           | Inr cppDir \<Rightarrow>
               list_ex (\<lambda>entry. cppFilter blocks block entry \<and> \<not> isFile entry) cppDir \<or>
               (case readDirectory h (Uri_joinPath baseUri [js ''python'', moduleName]) of
                  Inl e \<Rightarrow> False
                | Inr pyDir \<Rightarrow>
                    list_ex (\<lambda>entry. (pyFilter blocks block entry \<or>
                                pyTestFilter blocks block entry) \<and> \<not> isFile entry) pyDir \<or>
                    (case readDirectory h (Uri_joinPath baseUri [js ''lib'']) of
                       Inl e \<Rightarrow> False
                     | Inr cppImplDir \<Rightarrow>
                         list_ex (\<lambda>entry. (cppImplFilter blocks block entry \<or>
                                     cppTestFilter h blocks block entry = Inr True) \<and>
                                    \<not> isFile entry) cppImplDir))))"

text \<open>
  The presentation order of the specification, as a rank of role labels: definition,
  implementation (the label \<open>Implementation\<close> of the Python directory), public header,
  implementation source or header (of \<open>lib\<close>), and the tests, Python before C++.
\<close>

definition roleRank :: "jstring \<Rightarrow> nat" where
  "roleRank lbl =
     (if lbl = js ''Block definition'' then 0
      else if lbl = js ''Implementation'' then 1
      else if lbl = js ''Public header'' then 2
      else if lbl = js ''Implementation source'' \<or> lbl = js ''Implementation header'' then 3
      else if lbl = js ''Python Tests'' then 4
      else if lbl = js ''C++ Tests'' then 5
      else 6)"

section \<open>modtool.ts: resolving a block name or a regular expression\<close>

text \<open>
  \<open>disableBlock\<close>, \<open>removeBlock\<close> and \<open>createPythonBindings\<close> branch on whether the
  name they were given is an existing block; otherwise they build a regular expression
  from it. The model is the part of each function between the name being known and the
  confirmation dialog: the messages it computes. A \<open>Set\<close> of block names is the list of
  its elements in iteration order, an array is a list.
\<close>

record Prompt =
  warningMessage :: jstring
  successMessage :: jstring
  detailMessage :: "jstring list"

definition dquote :: jstring where
  "dquote = [0x22]"

text \<open>\<open>Array.prototype.join\<close> with a separator.\<close>

fun joinWith :: "jstring \<Rightarrow> jstring list \<Rightarrow> jstring" where
  "joinWith sep [] = []"
| "joinWith sep [x] = x"
| "joinWith sep (x # y # ys) = x @ sep @ joinWith sep (y # ys)"

text \<open>
  Lines 485 to 501 of \<open>disableBlock\<close>. The statement
  \<open>successMessage = 'Matching blocks were disabled: ', detailMessage.join(', ')\<close> is an
  assignment followed by the comma operator, so the joined names are dropped.
\<close>

definition disableBlock_prompt :: "host \<Rightarrow> jstring list \<Rightarrow> jstring \<Rightarrow> error + Prompt" where
  "disableBlock_prompt h existingBlocks blockName =
     (if blockName \<in> set existingBlocks then
        Inr \<lparr>warningMessage =
               js ''Are you sure you want to disable '' @ dquote @ blockName @ dquote @ js ''?'',
             successMessage = js ''Block '' @ dquote @ blockName @ dquote @ js '' was disabled'',
             detailMessage = []\<rparr>
      else
        (case RegExp h blockName of
           None \<Rightarrow> Inl (SyntaxError blockName)
         | Some test \<Rightarrow>
             Inr \<lparr>warningMessage = js ''Are you sure you want to disable multiple blocks?'',
                  successMessage = js ''Matching blocks were disabled: '',
                  detailMessage = js ''The following blocks will be disabled:'' #
                    map (\<lambda>block. dquote @ block @ dquote) (filter test existingBlocks)\<rparr>))"

text \<open>Lines 535 to 554 of \<open>removeBlock\<close>.\<close>

definition removeBlock_prompt ::
  "host \<Rightarrow> blockFilter \<Rightarrow> jstring list \<Rightarrow> jstring \<Rightarrow> jstring \<Rightarrow> jstring \<Rightarrow> error + Prompt" where
  "removeBlock_prompt h blocks existingBlocks cwd moduleName blockName =
     (if blockName \<in> set existingBlocks then
        andThen (getBlockFilesTree h blocks blockName (Uri_file cwd) moduleName) (\<lambda>items.
        Inr \<lparr>warningMessage =
               js ''Are you sure you want to remove '' @ dquote @ blockName @ dquote @ js ''?'',
             successMessage = js ''Block '' @ dquote @ blockName @ dquote @ js '' was removed'',
             detailMessage = js ''The following files will be deleted:'' #
               map (\<lambda>item. drop (length cwd + 1) (fsPath h (resourceUri item))) items\<rparr>)
      else
        (case RegExp h blockName of
           None \<Rightarrow> Inl (SyntaxError blockName)
         | Some test \<Rightarrow>
             Inr \<lparr>warningMessage = js ''Are you sure you want to remove multiple blocks?'',
                  successMessage = js ''Matching blocks were removed: '' @
                    joinWith (js '', '')
                      (map (\<lambda>block. dquote @ block @ dquote) (filter test existingBlocks)),
                  detailMessage = js ''The following blocks will be removed:'' #
                    map (\<lambda>block. dquote @ block @ dquote) (filter test existingBlocks)\<rparr>))"

text \<open>
  \<open>createPythonBindings\<close> called with a block name: the information message it ends
  with when the tool does not fail. Lines 338 to 340 return early for an empty
  \<open>cppBlocks\<close>; lines 359 to 367 compute \<open>successMessage\<close>, where the comma operator
  drops \<open>matchingBlocks.join(', ')\<close>.
\<close>

definition createPythonBindings_successMessage ::
  "host \<Rightarrow> jstring list \<Rightarrow> jstring \<Rightarrow> jstring \<Rightarrow> error + jstring" where
  "createPythonBindings_successMessage h cppBlocks moduleName blockName =
     (if length cppBlocks = 0 then Inr (js ''No C++ headers found'')
      else if blockName \<in> set cppBlocks then
        Inr (js ''Python bindings written to '' @ dquote @
             join h [js ''python'', moduleName, js ''bindings'', blockName @ js ''_python.cc''] @
             dquote)
      else
        (case RegExp h blockName of
           None \<Rightarrow> Inl (SyntaxError blockName)
         | Some test \<Rightarrow> Inr (js ''Python bindings created for blocks: '')))"

section \<open>blockFilter.ts\<close>

text \<open>
  Both source files import the module \<open>blockFilter\<close>; its own source is not
  available. What follows is its classification of file names and its inventory of
  blocks as the specification describes them (sections 4.1, 4.2 and 9).
\<close>

definition stripExtname :: "jstring \<Rightarrow> jstring" where
  "stripExtname name = take (length name - length (extname name)) name"

text \<open>
  Modelled from the spec: \<open>filterBlockTests\<close> is missing. "Test files (either language)
  match a reserved test-filename pattern (e.g. prefixed with \<open>qa_\<close> or suffixed
  \<open>_test\<close>)."
\<close>

definition spec_filterBlockTests :: "jstring \<Rightarrow> bool" where
  "spec_filterBlockTests name \<longleftrightarrow>
     startsWith name (js ''qa_'') \<or> endsWith (stripExtname name) (js ''_test'')"

text \<open>
  Modelled from the spec: \<open>filterGrcBlocks\<close> is missing. "A name ending \<open>.block.yml\<close>
  without the module prefix is also accepted as a weaker match (used for any YAML
  definition filtering)"; the predicate gets the file name only.
\<close>

definition spec_filterGrcBlocks :: "jstring \<Rightarrow> bool" where
  "spec_filterGrcBlocks name \<longleftrightarrow> endsWith name (js ''.block.yml'')"

text \<open>
  Modelled from the spec: \<open>filterXmlBlocks\<close> is missing. The "looser suffix-only
  pattern" of the legacy definitions; the predicate gets the file name only.
\<close>

definition spec_filterXmlBlocks :: "jstring \<Rightarrow> bool" where
  "spec_filterXmlBlocks name \<longleftrightarrow> endsWith name (js ''.xml'')"

text \<open>
  Modelled from the spec: \<open>filterCppBlocks\<close> is missing. "A name of the form
  \<open><blockId>.h\<close> is a public header, excluding [...] common non-block headers (e.g. an
  api header)." The header named after the module is excluded by the inventory, which
  knows the module name.
\<close>

definition spec_filterCppBlocks :: "jstring \<Rightarrow> bool" where
  "spec_filterCppBlocks name \<longleftrightarrow> extname name = js ''.h'' \<and> name \<noteq> js ''api.h''"

text \<open>
  Modelled from the spec: \<open>filterPyBlocks\<close> is missing. "A name of the form
  \<open><blockId>.py\<close> is an implementation, excluding \<open>__init__.py\<close> and any file whose
  name matches the test-file pattern."
\<close>

definition spec_filterPyBlocks :: "jstring \<Rightarrow> bool" where
  "spec_filterPyBlocks name \<longleftrightarrow>
     extname name = js ''.py'' \<and> name \<noteq> js ''__init__.py'' \<and> \<not> spec_filterBlockTests name"

text \<open>
  Modelled from the spec: \<open>filterCppImplFiles\<close> is missing. "A name matching
  source-extension family (\<open>.cc\<close>/\<open>.cpp\<close>/\<open>.cxx\<close>) for a non-test,
  non-generated-binding file is an implementation source"; a binding is "a name of the
  form \<open><blockId>_python.cc\<close>".
\<close>

definition spec_filterCppImplFiles :: "jstring \<Rightarrow> bool" where
  "spec_filterCppImplFiles name \<longleftrightarrow>
     (extname name = js ''.cc'' \<or> extname name = js ''.cpp'' \<or> extname name = js ''.cxx'') \<and>
     \<not> spec_filterBlockTests name \<and> \<not> endsWith name (js ''_python.cc'')"

definition specBlocks :: blockFilter where
  "specBlocks =
     \<lparr>filterGrcBlocks = spec_filterGrcBlocks,
      filterXmlBlocks = spec_filterXmlBlocks,
      filterCppBlocks = spec_filterCppBlocks,
      filterPyBlocks = spec_filterPyBlocks,
      filterBlockTests = spec_filterBlockTests,
      filterCppImplFiles = spec_filterCppImplFiles\<rparr>"

text \<open>
  Modelled from the spec: \<open>mapGrcBlocks\<close> is missing. "A name of the form
  \<open><moduleName>_<blockId>.block.yml\<close> is a current definition";
  "\<open><moduleName>_<blockId>.xml\<close> is a legacy definition"; "extraction requires
  stripping both the module prefix and the suffix". The result is \<open>None\<close> for a name
  that is not of the form.
\<close>

definition spec_mapGrcBlocks :: "jstring \<Rightarrow> jstring \<Rightarrow> jstring \<Rightarrow> jstring option" where
  "spec_mapGrcBlocks moduleName ext name =
     (if startsWith name (moduleName @ js ''_'') \<and> endsWith name ext \<and>
         length moduleName + 1 + length ext \<le> length name
      then Some (drop (length moduleName + 1) (take (length name - length ext) name))
      else None)"

text \<open>
  Modelled from the spec: \<open>mapCppImplFiles\<close> is missing. The block of an implementation
  source is "derived by stripping a known suffix convention (\<open>_impl\<close> suffix is
  normalized away when present) and the extension".
\<close>

definition spec_mapCppImplFiles :: "jstring \<Rightarrow> jstring" where
  "spec_mapCppImplFiles name =
     (let base = stripExtname name in
      if endsWith base (js ''_impl'') then take (length base - 5) base else base)"

text \<open>
  Modelled from the spec: the directory listing of the inventory is missing. "Returns an
  empty set (not an error) for a directory that does not exist or contains no matching
  files"; entries are classified by name alone.
\<close>

definition listNames :: "host \<Rightarrow> Uri \<Rightarrow> jstring list \<Rightarrow> jstring list" where
  "listNames h root pathSegments =
     (case readDirectory h (Uri_joinPath root pathSegments) of
        Inl e \<Rightarrow> []
      | Inr entries \<Rightarrow> map fst entries)"

text \<open>
  Modelled from the spec: \<open>getCppBlocks\<close>, \<open>getXmlBlocks\<close>, \<open>getCppImplFiles\<close> and
  \<open>getAllBlocks\<close> are missing. Each set is "computed by listing one directory's entries
  and classifying each, then projecting the successfully classified identifiers into a
  set"; all blocks are the "union across public headers, current definitions, legacy
  definitions, python implementations, library implementations". The header whose name
  "equals the module name itself" is excluded. A project root that cannot be listed
  "propagates as a reported error".
\<close>

definition cppBlockNames :: "host \<Rightarrow> Uri \<Rightarrow> jstring \<Rightarrow> jstring list" where
  "cppBlockNames h root moduleName =
     map stripExtname
       (filter (\<lambda>name. spec_filterCppBlocks name \<and> stripExtname name \<noteq> moduleName)
          (listNames h root [js ''include'', js ''gnuradio'', moduleName]))"

definition grcBlockNames :: "host \<Rightarrow> Uri \<Rightarrow> jstring \<Rightarrow> jstring \<Rightarrow> jstring list" where
  "grcBlockNames h root moduleName ext =
     List.map_filter (spec_mapGrcBlocks moduleName ext) (listNames h root [js ''grc''])"

definition pyBlockNames :: "host \<Rightarrow> Uri \<Rightarrow> jstring \<Rightarrow> jstring list" where
  "pyBlockNames h root moduleName =
     map stripExtname (filter spec_filterPyBlocks (listNames h root [js ''python'', moduleName]))"

definition cppImplBlockNames :: "host \<Rightarrow> Uri \<Rightarrow> jstring list" where
  "cppImplBlockNames h root =
     map spec_mapCppImplFiles (filter spec_filterCppImplFiles (listNames h root [js ''lib'']))"

definition whenListable :: "host \<Rightarrow> Uri \<Rightarrow> 'a \<Rightarrow> error + 'a" where
  "whenListable h root result =
     (case readDirectory h root of Inl e \<Rightarrow> Inl (FsError e) | Inr entries \<Rightarrow> Inr result)"




definition getAllBlocks :: "host \<Rightarrow> jstring \<Rightarrow> jstring \<Rightarrow> error + jstring set" where
  "getAllBlocks h cwd moduleName =
     whenListable h (Uri_file cwd)
       (set (cppBlockNames h (Uri_file cwd) moduleName) \<union>
        set (grcBlockNames h (Uri_file cwd) moduleName (js ''.block.yml'')) \<union>
        set (grcBlockNames h (Uri_file cwd) moduleName (js ''.xml'')) \<union>
        set (pyBlockNames h (Uri_file cwd) moduleName) \<union>
        set (cppImplBlockNames h (Uri_file cwd)))"

section \<open>A sample host and sample projects\<close>

text \<open>
  A host for the examples. Its file system is a table from path segments below the
  project root (none for the root itself) to directory entries; a directory that is not
  in the table does not exist. Its \<open>RegExp\<close> knows two kinds of pattern and agrees with
  JavaScript on both: a pattern of letters, digits and underscores is searched as a
  substring, and such a pattern followed by \<open>.(cc|cpp|cxx)\<close> is searched as the
  pattern, any one character that is not a line terminator, and one of \<open>cc\<close>, \<open>cpp\<close>,
  \<open>cxx\<close>. Every other pattern is rejected.
\<close>

fun isSubstring :: "jstring \<Rightarrow> jstring \<Rightarrow> bool" where
  "isSubstring [] p = (p = [])"
| "isSubstring (c # s) p = (startsWith (c # s) p \<or> isSubstring s p)"

definition isLineTerminator :: "code_unit \<Rightarrow> bool" where
  "isLineTerminator c \<longleftrightarrow> c = 0x000A \<or> c = 0x000D \<or> c = 0x2028 \<or> c = 0x2029"

fun searchSource :: "jstring \<Rightarrow> jstring \<Rightarrow> bool" where
  "searchSource block [] = False"
| "searchSource block (c # s) =
     ((startsWith (c # s) block \<and>
       (case drop (length block) (c # s) of
          [] \<Rightarrow> False
        | d # r \<Rightarrow> \<not> isLineTerminator d \<and>
            (startsWith r (js ''cc'') \<or> startsWith r (js ''cpp'') \<or> startsWith r (js ''cxx''))))
      \<or> searchSource block s)"

definition sampleRegExp :: "jstring \<Rightarrow> (jstring \<Rightarrow> bool) option" where
  "sampleRegExp p =
     (if list_all isWordChar p then Some (\<lambda>s. isSubstring s p)
      else if endsWith p (js ''.(cc|cpp|cxx)'') \<and> list_all isWordChar (take (length p - 13) p)
      then Some (searchSource (take (length p - 13) p))
      else None)"

fun sample_fsPath :: "Uri \<Rightarrow> jstring" where
  "sample_fsPath (Uri_file p) = p"
| "sample_fsPath (Uri_joinPath u segments) = sample_fsPath u @ concat (map (\<lambda>s. js ''/'' @ s) segments)"

definition sampleHost :: "(jstring list \<times> (jstring \<times> FileType) list) list \<Rightarrow> host" where
  "sampleHost dirs =
     \<lparr>readDirectory = (\<lambda>u.
        case map_of dirs (case u of Uri_file p \<Rightarrow> [] | Uri_joinPath base segments \<Rightarrow> segments) of
          None \<Rightarrow> Inl FileNotFound
        | Some entries \<Rightarrow> Inr entries),
      RegExp = sampleRegExp,
      fsPath = sample_fsPath,
      join = joinWith (js ''/'')\<rparr>"

definition sampleCwd :: jstring where
  "sampleCwd = js ''/work/gr-mymod''"

text \<open>A project with nothing but a \<open>lib\<close> directory.\<close>

definition libOnlyProject :: "(jstring list \<times> (jstring \<times> FileType) list) list" where
  "libOnlyProject =
     [([], [(js ''lib'', FileType_Directory)]),
      ([js ''lib''], [(js ''foo_impl.cc'', FileType_File), (js ''qa_foo.cc'', FileType_File)])]"


text \<open>A project of the module \<open>mymod\<close> with the blocks \<open>foo\<close> and \<open>foobar\<close>.\<close>

definition mymodProject :: "(jstring list \<times> (jstring \<times> FileType) list) list" where
  "mymodProject =
     [([], [(js ''grc'', FileType_Directory), (js ''include'', FileType_Directory),
            (js ''python'', FileType_Directory), (js ''lib'', FileType_Directory)]),
      ([js ''grc''],
         [(js ''mymod_foo.block.yml'', FileType_File),
          (js ''mymod_foobar.block.yml'', FileType_File)]),
      ([js ''include'', js ''gnuradio'', js ''mymod''],
         [(js ''api.h'', FileType_File), (js ''foo.h'', FileType_File),
          (js ''foobar.h'', FileType_File)]),
      ([js ''python'', js ''mymod''],
         [(js ''__init__.py'', FileType_File), (js ''bindings'', FileType_Directory),
          (js ''qa_foo.py'', FileType_File)]),
      ([js ''lib''],
         [(js ''foo_impl.cc'', FileType_File), (js ''foo_impl.h'', FileType_File),
          (js ''foobar_impl.cc'', FileType_File), (js ''qa_foo.cc'', FileType_File)])]"

text \<open>
  A project whose \<open>grc\<close> holds a directory of the name \<open>mymod_foo.block.yml\<close> and
  that has no \<open>include\<close> and no \<open>python\<close> directory.
\<close>

definition grcDirEntryProject :: "(jstring list \<times> (jstring \<times> FileType) list) list" where
  "grcDirEntryProject =
     [([], [(js ''grc'', FileType_Directory), (js ''lib'', FileType_Directory)]),
      ([js ''grc''], [(js ''mymod_foo.block.yml'', FileType_Directory)]),
      ([js ''lib''], [(js ''foo_impl.cc'', FileType_File)])]"

text \<open>
  A project whose \<open>lib\<close> holds a directory of the name \<open>foo_impl.cc\<close> and that has
  no \<open>grc\<close> directory.
\<close>

definition libDirEntryProject :: "(jstring list \<times> (jstring \<times> FileType) list) list" where
  "libDirEntryProject =
     [([], [(js ''include'', FileType_Directory), (js ''python'', FileType_Directory),
            (js ''lib'', FileType_Directory)]),
      ([js ''include'', js ''gnuradio'', js ''mymod''], []),
      ([js ''python'', js ''mymod''], []),
      ([js ''lib''], [(js ''foo_impl.cc'', FileType_Directory)])]"

text \<open>
  A project of the module \<open>mymod\<close> with the blocks \<open>foo\<close> and \<open>foobar\<close>, each with a
  definition, a public header, a Python implementation and a library implementation.
\<close>

definition prefixProject :: "(jstring list \<times> (jstring \<times> FileType) list) list" where
  "prefixProject =
     [([], [(js ''grc'', FileType_Directory), (js ''include'', FileType_Directory),
            (js ''python'', FileType_Directory), (js ''lib'', FileType_Directory)]),
      ([js ''grc''],
         [(js ''mymod_foo.block.yml'', FileType_File), (js ''mymod_foobar.xml'', FileType_File)]),
      ([js ''include'', js ''gnuradio'', js ''mymod''],
         [(js ''foo.h'', FileType_File), (js ''foobar.h'', FileType_File)]),
      ([js ''python'', js ''mymod''],
         [(js ''__init__.py'', FileType_File), (js ''foo.py'', FileType_File),
          (js ''foobar.py'', FileType_File), (js ''qa_foobar.py'', FileType_File)]),
      ([js ''lib''],
         [(js ''foo_impl.cc'', FileType_File), (js ''foobar_impl.cc'', FileType_File),
          (js ''foobar_impl.h'', FileType_File), (js ''qa_foobar.cc'', FileType_File)])]"

section \<open>Properties of validateBlockName\<close>

lemma trim_js_a_comma_b: "trim (js ''a,b'') = js ''a,b''"
  by (simp add: trim_def js_def isWhiteSpace_def)

lemma blockNameRegExp_test_a_comma_b: "blockNameRegExp_test (js ''a,b'')"
  by (simp add: blockNameRegExp_test_def blockNameClass_def isWordChar_def js_def)

text \<open>
  Claim C4. The claim promises an error whenever the trimmed candidate contains a
  character other than ASCII letters, digits and underscore. The candidate \<open>a,b\<close>
  contains a comma, and with no existing block the code returns the valid verdict
  \<open>null\<close>: the comma is a member of the class \<open>[\w,\_]\<close>.
\<close>

theorem validateBlockName_accepts_comma:
  "validateBlockName {} (js ''a,b'') = None"
  by (simp add: validateBlockName_def Let_def trim_js_a_comma_b
      blockNameRegExp_test_a_comma_b) (simp add: js_def)

lemma wordChar_blockNameClass: "isWordChar c \<Longrightarrow> blockNameClass c"
  by (simp add: blockNameClass_def)

text \<open>
  Claim C8. When the trimmed candidate has one or two characters, all of them ASCII
  letters, digits or underscores, and is already a block name, the verdict is the
  warning about short names and not the collision error: the length test comes first.
\<close>

theorem validateBlockName_short_collision:
  assumes "length (trim v) = 1 \<or> length (trim v) = 2"
    and "list_all isWordChar (trim v)"
    and "trim v \<in> S"
  shows "validateBlockName S v =
           Some \<lparr>message = js ''Descriptive names usually contain at least 3 symbols'',
                 severity = Warning\<rparr>"
proof -
  from assms(1) have ne: "trim v \<noteq> []" and short: "length (trim v) < 3"
    by auto
  from assms(2) have "list_all blockNameClass (trim v)"
    by (simp add: list_all_iff wordChar_blockNameClass)
  with ne have "blockNameRegExp_test (trim v)"
    by (simp add: blockNameRegExp_test_def)
  with ne short show ?thesis
    by (simp add: validateBlockName_def Let_def)
qed

lemma trim_js_ab: "trim (js '' ab '') = js ''ab''"
  by (simp add: trim_def js_def isWhiteSpace_def)

theorem validateBlockName_short_collision_witness:
  "(length (trim (js '' ab '')) = 1 \<or> length (trim (js '' ab '')) = 2)
   \<and> list_all isWordChar (trim (js '' ab ''))
   \<and> trim (js '' ab '') \<in> {js ''ab'', js ''foo''}
   \<and> validateBlockName {js ''ab'', js ''foo''} (js '' ab '') =
       Some \<lparr>message = js ''Descriptive names usually contain at least 3 symbols'',
             severity = Warning\<rparr>"
proof -
  have h1: "length (trim (js '' ab '')) = 1 \<or> length (trim (js '' ab '')) = 2"
    by (simp add: trim_js_ab) (simp add: js_def)
  have h2: "list_all isWordChar (trim (js '' ab ''))"
    by (simp add: trim_js_ab) (simp add: js_def isWordChar_def)
  have h3: "trim (js '' ab '') \<in> {js ''ab'', js ''foo''}"
    by (simp add: trim_js_ab)
  from validateBlockName_short_collision [OF h1 h2 h3] h1 h2 h3 show ?thesis
    by blast
qed

section \<open>Properties of getBlockFilesTree\<close>

lemma andThen_Inr_iff: "andThen m f = Inr y \<longleftrightarrow> (\<exists>x. m = Inr x \<and> f x = Inr y)"
  by (cases m) simp_all

lemma andThen_Inl_iff: "andThen m f = Inl e \<longleftrightarrow> m = Inl e \<or> (\<exists>x. m = Inr x \<and> f x = Inl e)"
  by (cases m) simp_all

lemma mapM_mapBlockToTreeItem:
  "mapM (mapBlockToTreeItem baseUri lbl segs) entries =
     (if list_all isFile entries then Inr (map (\<lambda>entry. treeItem baseUri lbl segs (fst entry)) entries)
      else Inl (JsError (js ''Expected a file, got something else'')))"
proof (induction entries)
  case Nil
  show ?case by simp
next
  case (Cons entry entries)
  show ?case
  proof (cases "isFile entry")
    case True
    then have "mapBlockToTreeItem baseUri lbl segs entry = Inr (treeItem baseUri lbl segs (fst entry))"
      by (cases entry) (simp add: mapBlockToTreeItem_def isFile_def)
    with True Cons.IH show ?thesis by simp
  next
    case False
    then have "mapBlockToTreeItem baseUri lbl segs entry =
        Inl (JsError (js ''Expected a file, got something else''))"
      by (cases entry) (simp add: mapBlockToTreeItem_def isFile_def)
    with False show ?thesis by simp
  qed
qed

lemma mapM_mapCppImplToTreeItem:
  "mapM (mapCppImplToTreeItem baseUri) entries =
     (if list_all isFile entries then Inr (map (\<lambda>entry. cppImplItem baseUri (fst entry)) entries)
      else Inl (JsError (js ''Expected a file, got something else'')))"
proof (induction entries)
  case Nil
  show ?case by simp
next
  case (Cons entry entries)
  show ?case
  proof (cases "isFile entry")
    case True
    then have "mapCppImplToTreeItem baseUri entry = Inr (cppImplItem baseUri (fst entry))"
      by (cases entry)
        (simp add: mapCppImplToTreeItem_def mapBlockToTreeItem_def isFile_def cppImplItem_def
          treeItem_def)
    with True Cons.IH show ?thesis by simp
  next
    case False
    then have "mapCppImplToTreeItem baseUri entry =
        Inl (JsError (js ''Expected a file, got something else''))"
      by (cases entry) (simp add: mapCppImplToTreeItem_def mapBlockToTreeItem_def isFile_def)
    with False show ?thesis by simp
  qed
qed

lemma filterM_cppTestFilter_Some:
  assumes "RegExp h (block @ js ''.(cc|cpp|cxx)'') = Some test"
  shows "filterM (cppTestFilter h blocks block) entries =
           Inr (filter (\<lambda>entry. filterBlockTests blocks (fst entry) \<and> test (fst entry)) entries)"
  using assms by (induction entries) (simp_all add: cppTestFilter_def)

lemma filterM_cppTestFilter_None:
  assumes "RegExp h (block @ js ''.(cc|cpp|cxx)'') = None"
  shows "filterM (cppTestFilter h blocks block) entries =
           (if list_ex (\<lambda>entry. filterBlockTests blocks (fst entry)) entries
            then Inl (SyntaxError (block @ js ''.(cc|cpp|cxx)'')) else Inr [])"
  using assms by (induction entries) (simp_all add: cppTestFilter_def)

lemma getBlockFilesTree_listed:
  assumes "readDirectory h (Uri_joinPath baseUri [js ''grc'']) = Inr grcDir"
    and "readDirectory h (Uri_joinPath baseUri [js ''include'', js ''gnuradio'', moduleName]) = Inr cppDir"
    and "readDirectory h (Uri_joinPath baseUri [js ''python'', moduleName]) = Inr pyDir"
    and "readDirectory h (Uri_joinPath baseUri [js ''lib'']) = Inr cppImplDir"
  shows "getBlockFilesTree h blocks block baseUri moduleName =
     (if list_all isFile (filter (grcFilter blocks block moduleName) grcDir) \<and>
         list_all isFile (filter (cppFilter blocks block) cppDir) \<and>
         list_all isFile (filter (pyFilter blocks block) pyDir) \<and>
         list_all isFile (filter (pyTestFilter blocks block) pyDir) \<and>
         list_all isFile (filter (cppImplFilter blocks block) cppImplDir)
      then
        andThen (filterM (cppTestFilter h blocks block) cppImplDir) (\<lambda>cppTestEntries.
          if list_all isFile cppTestEntries then
            Inr (blockFileItems baseUri moduleName
                   (filter (grcFilter blocks block moduleName) grcDir)
                   (filter (pyFilter blocks block) pyDir)
                   (filter (cppFilter blocks block) cppDir)
                   (filter (cppImplFilter blocks block) cppImplDir)
                   (filter (pyTestFilter blocks block) pyDir)
                   cppTestEntries)
          else Inl (JsError (js ''Expected a file, got something else'')))
      else Inl (JsError (js ''Expected a file, got something else'')))"
  using assms
  by (cases "filterM (cppTestFilter h blocks block) cppImplDir")
    (simp_all add: getBlockFilesTree_def readdir_def mapM_mapBlockToTreeItem
      mapM_mapCppImplToTreeItem blockFileItems_def)

lemma getBlockFilesTree_Inr_listable:
  assumes "getBlockFilesTree h blocks block baseUri moduleName = Inr items"
  shows "\<exists>grcDir cppDir pyDir cppImplDir.
     readDirectory h (Uri_joinPath baseUri [js ''grc'']) = Inr grcDir \<and>
     readDirectory h (Uri_joinPath baseUri [js ''include'', js ''gnuradio'', moduleName]) = Inr cppDir \<and>
     readDirectory h (Uri_joinPath baseUri [js ''python'', moduleName]) = Inr pyDir \<and>
     readDirectory h (Uri_joinPath baseUri [js ''lib'']) = Inr cppImplDir"
  using assms
  by (auto simp add: getBlockFilesTree_def readdir_def andThen_Inr_iff split: sum.splits)

lemma getBlockFilesTree_Inr_sections:
  assumes "getBlockFilesTree h blocks block baseUri moduleName = Inr items"
    and "readDirectory h (Uri_joinPath baseUri [js ''grc'']) = Inr grcDir"
    and "readDirectory h (Uri_joinPath baseUri [js ''include'', js ''gnuradio'', moduleName]) = Inr cppDir"
    and "readDirectory h (Uri_joinPath baseUri [js ''python'', moduleName]) = Inr pyDir"
    and "readDirectory h (Uri_joinPath baseUri [js ''lib'']) = Inr cppImplDir"
  obtains cppTestEntries where
    "filterM (cppTestFilter h blocks block) cppImplDir = Inr cppTestEntries"
    "list_all isFile (filter (grcFilter blocks block moduleName) grcDir)"
    "list_all isFile (filter (cppFilter blocks block) cppDir)"
    "list_all isFile (filter (pyFilter blocks block) pyDir)"
    "list_all isFile (filter (pyTestFilter blocks block) pyDir)"
    "list_all isFile (filter (cppImplFilter blocks block) cppImplDir)"
    "list_all isFile cppTestEntries"
    "items = blockFileItems baseUri moduleName
       (filter (grcFilter blocks block moduleName) grcDir)
       (filter (pyFilter blocks block) pyDir)
       (filter (cppFilter blocks block) cppDir)
       (filter (cppImplFilter blocks block) cppImplDir)
       (filter (pyTestFilter blocks block) pyDir)
       cppTestEntries"
proof -
  note unfolded = getBlockFilesTree_listed [OF assms(2-5), of blocks block]
  show ?thesis
  proof (cases "filterM (cppTestFilter h blocks block) cppImplDir")
    case (Inl e)
    with assms(1) unfolded show ?thesis
      by (simp split: if_splits)
  next
    case (Inr cppTestEntries)
    with assms(1) unfolded that [of cppTestEntries] show ?thesis
      by (simp split: if_splits)
  qed
qed

lemma label_treeItem: "label (treeItem baseUri lbl segs name) = lbl"
  by (simp add: treeItem_def)

lemma roleRank_values:
  "roleRank (js ''Block definition'') = 0"
  "roleRank (js ''Implementation'') = 1"
  "roleRank (js ''Public header'') = 2"
  "roleRank (js ''Implementation source'') = 3"
  "roleRank (js ''Implementation header'') = 3"
  "roleRank (js ''Python Tests'') = 4"
  "roleRank (js ''C++ Tests'') = 5"
  by (simp_all add: roleRank_def js_def)

lemma js_append: "js s @ js t = js (s @ t)"
  by (simp add: js_def)

lemma label_cppImplItem:
  "label (cppImplItem baseUri name) =
     (if extname name = js ''.h'' then js ''Implementation header'' else js ''Implementation source'')"
  by (simp add: cppImplItem_def label_treeItem js_append)

lemma roleRank_cppImplItem: "roleRank (label (cppImplItem baseUri name)) = 3"
  by (simp add: label_cppImplItem roleRank_values)

lemma blockFileItems_ranks:
  "map (\<lambda>item. roleRank (label item)) (blockFileItems baseUri moduleName gs ps cs is pts cts) =
     replicate (length gs) 0 @ replicate (length ps) 1 @ replicate (length cs) 2 @
     replicate (length is) 3 @ replicate (length pts) 4 @ replicate (length cts) 5"
  by (simp add: blockFileItems_def comp_def label_treeItem roleRank_values roleRank_cppImplItem
      map_replicate_const)

lemma blockFileItems_order:
  "sorted (map (\<lambda>item. roleRank (label item))
     (blockFileItems baseUri moduleName gs ps cs is pts cts))"
  by (auto simp add: blockFileItems_ranks sorted_append)

lemma blockFileItems_roles:
  "list_all (\<lambda>item. roleRank (label item) < 6)
     (blockFileItems baseUri moduleName gs ps cs is pts cts)"
  by (auto simp add: blockFileItems_def list_all_iff label_treeItem roleRank_values
      roleRank_cppImplItem)
lemma startsWith_prefix: "startsWith s p \<longleftrightarrow> prefix p s"
proof
  assume "startsWith s p"
  then have "s = p @ drop (length p) s"
    by (metis append_take_drop_id startsWith_def)
  then show "prefix p s"
    by (rule prefixI)
next
  assume "prefix p s"
  then show "startsWith s p"
    by (auto simp add: prefix_def startsWith_def)
qed

lemma startsWith_trans:
  "startsWith name (m @ b) \<Longrightarrow> startsWith b a \<Longrightarrow> startsWith name (m @ a)"
  unfolding startsWith_prefix
  by (meson prefix_order.trans same_prefix_prefix)

lemma not_all_files:
  "e \<in> set entries \<Longrightarrow> P e \<Longrightarrow> \<not> isFile e \<Longrightarrow> \<not> list_all isFile (filter P entries)"
  by (cases e) (auto simp add: list_all_iff)

lemma cppTestFilter_True:
  assumes "cppTestFilter h blocks block entry = Inr True"
  obtains test where "RegExp h (block @ js ''.(cc|cpp|cxx)'') = Some test"
    and "filterBlockTests blocks (fst entry)" and "test (fst entry)"
  using assms by (auto simp add: cppTestFilter_def split: if_splits option.splits)

lemma resourceUri_treeItem:
  "resourceUri (treeItem baseUri lbl segs name) = Uri_joinPath baseUri (segs @ [name])"
  by (simp add: treeItem_def)

lemma resourceUri_cppImplItem:
  "resourceUri (cppImplItem baseUri name) = Uri_joinPath baseUri [js ''lib'', name]"
  by (simp add: cppImplItem_def resourceUri_treeItem)






lemma list_ex_not_all_files:
  "list_ex (\<lambda>entry. P entry \<and> \<not> isFile entry) entries \<Longrightarrow>
   \<not> list_all isFile (filter P entries)"
  by (auto simp add: list_ex_iff list_all_iff)

lemma list_ex_or:
  "list_ex (\<lambda>entry. (P entry \<or> Q entry) \<and> R entry) entries \<longleftrightarrow>
   list_ex (\<lambda>entry. P entry \<and> R entry) entries \<or> list_ex (\<lambda>entry. Q entry \<and> R entry) entries"
  by (auto simp add: list_ex_iff)

lemma non_file_in_grc:
  assumes "readDirectory h (Uri_joinPath baseUri [js ''grc'']) = Inr grcDir"
    and "list_ex (\<lambda>entry. grcFilter blocks block moduleName entry \<and> \<not> isFile entry) grcDir"
  shows "getBlockFilesTree h blocks block baseUri moduleName =
           Inl (JsError (js ''Expected a file, got something else''))"
  using assms(1) list_ex_not_all_files [OF assms(2)]
  by (simp add: getBlockFilesTree_def readdir_def mapM_mapBlockToTreeItem)

lemma non_file_in_cpp:
  assumes "readDirectory h (Uri_joinPath baseUri [js ''grc'']) = Inr grcDir"
    and "readDirectory h (Uri_joinPath baseUri [js ''include'', js ''gnuradio'', moduleName]) = Inr cppDir"
    and "list_ex (\<lambda>entry. cppFilter blocks block entry \<and> \<not> isFile entry) cppDir"
  shows "getBlockFilesTree h blocks block baseUri moduleName =
           Inl (JsError (js ''Expected a file, got something else''))"
  using assms(1,2) list_ex_not_all_files [OF assms(3)]
  by (simp add: getBlockFilesTree_def readdir_def mapM_mapBlockToTreeItem)

lemma non_file_in_py:
  assumes "readDirectory h (Uri_joinPath baseUri [js ''grc'']) = Inr grcDir"
    and "readDirectory h (Uri_joinPath baseUri [js ''include'', js ''gnuradio'', moduleName]) = Inr cppDir"
    and "readDirectory h (Uri_joinPath baseUri [js ''python'', moduleName]) = Inr pyDir"
    and "list_ex (\<lambda>entry. (pyFilter blocks block entry \<or> pyTestFilter blocks block entry) \<and>
            \<not> isFile entry) pyDir"
  shows "getBlockFilesTree h blocks block baseUri moduleName =
           Inl (JsError (js ''Expected a file, got something else''))"
proof -
  from assms(4) have "\<not> list_all isFile (filter (pyFilter blocks block) pyDir) \<or>
      \<not> list_all isFile (filter (pyTestFilter blocks block) pyDir)"
    by (auto simp add: list_ex_or dest: list_ex_not_all_files)
  with assms(1-3) show ?thesis
    by (auto simp add: getBlockFilesTree_def readdir_def mapM_mapBlockToTreeItem)
qed

lemma non_file_in_lib:
  assumes grc: "readDirectory h (Uri_joinPath baseUri [js ''grc'']) = Inr grcDir"
    and cpp: "readDirectory h (Uri_joinPath baseUri [js ''include'', js ''gnuradio'', moduleName]) = Inr cppDir"
    and py: "readDirectory h (Uri_joinPath baseUri [js ''python'', moduleName]) = Inr pyDir"
    and lib: "readDirectory h (Uri_joinPath baseUri [js ''lib'']) = Inr cppImplDir"
    and entry: "list_ex (\<lambda>entry. (cppImplFilter blocks block entry \<or>
            cppTestFilter h blocks block entry = Inr True) \<and> \<not> isFile entry) cppImplDir"
  shows "getBlockFilesTree h blocks block baseUri moduleName =
           Inl (JsError (js ''Expected a file, got something else''))"
proof -
  note unfolded = getBlockFilesTree_listed [OF grc cpp py lib, of blocks block]
  show ?thesis
  proof (cases "list_all isFile (filter (grcFilter blocks block moduleName) grcDir) \<and>
         list_all isFile (filter (cppFilter blocks block) cppDir) \<and>
         list_all isFile (filter (pyFilter blocks block) pyDir) \<and>
         list_all isFile (filter (pyTestFilter blocks block) pyDir) \<and>
         list_all isFile (filter (cppImplFilter blocks block) cppImplDir)")
    case False
    with unfolded show ?thesis
      by simp
  next
    case True
    with entry have "list_ex (\<lambda>entry. cppTestFilter h blocks block entry = Inr True \<and> \<not> isFile entry) cppImplDir"
      by (auto simp add: list_ex_or dest: list_ex_not_all_files)
    then obtain e where e: "e \<in> set cppImplDir" "cppTestFilter h blocks block e = Inr True"
        "\<not> isFile e"
      by (auto simp add: list_ex_iff)
    from e(2) obtain test where test: "RegExp h (block @ js ''.(cc|cpp|cxx)'') = Some test"
        "filterBlockTests blocks (fst e)" "test (fst e)"
      by (rule cppTestFilter_True)
    have "\<not> list_all isFile
        (filter (\<lambda>entry. filterBlockTests blocks (fst entry) \<and> test (fst entry)) cppImplDir)"
      by (rule not_all_files [OF e(1) _ e(3)]) (simp add: test(2,3))
    with True unfolded filterM_cppTestFilter_Some [OF test(1), of blocks cppImplDir]
    show ?thesis
      by simp
  qed
qed

lemma nonFileEntry_no_list:
  assumes "nonFileEntry h blocks block baseUri moduleName"
  shows "getBlockFilesTree h blocks block baseUri moduleName \<noteq> Inr items"
proof
  assume A: "getBlockFilesTree h blocks block baseUri moduleName = Inr items"
  from getBlockFilesTree_Inr_listable [OF A] obtain grcDir cppDir pyDir cppImplDir where
    dirs: "readDirectory h (Uri_joinPath baseUri [js ''grc'']) = Inr grcDir"
      "readDirectory h (Uri_joinPath baseUri [js ''include'', js ''gnuradio'', moduleName]) = Inr cppDir"
      "readDirectory h (Uri_joinPath baseUri [js ''python'', moduleName]) = Inr pyDir"
      "readDirectory h (Uri_joinPath baseUri [js ''lib'']) = Inr cppImplDir"
    by blast
  from assms dirs have "getBlockFilesTree h blocks block baseUri moduleName =
      Inl (JsError (js ''Expected a file, got something else''))"
    unfolding nonFileEntry_def
    by (auto intro: non_file_in_grc non_file_in_cpp non_file_in_py non_file_in_lib)
  with A show False
    by simp
qed


section \<open>The sample projects evaluated\<close>

lemma mymodProject_foo:
  "getBlockFilesTree (sampleHost mymodProject) specBlocks (js ''foo'') (Uri_file sampleCwd)
      (js ''mymod'') =
     Inr (blockFileItems (Uri_file sampleCwd) (js ''mymod'')
       [(js ''mymod_foo.block.yml'', FileType_File), (js ''mymod_foobar.block.yml'', FileType_File)]
       []
       [(js ''foo.h'', FileType_File), (js ''foobar.h'', FileType_File)]
       [(js ''foo_impl.cc'', FileType_File), (js ''foo_impl.h'', FileType_File),
        (js ''foobar_impl.cc'', FileType_File)]
       [(js ''qa_foo.py'', FileType_File)]
       [(js ''qa_foo.cc'', FileType_File)])"
  by code_simp

lemma prefixProject_listings:
  "readDirectory (sampleHost prefixProject) (Uri_joinPath (Uri_file sampleCwd) [js ''grc'']) =
     Inr [(js ''mymod_foo.block.yml'', FileType_File), (js ''mymod_foobar.xml'', FileType_File)]"
  "readDirectory (sampleHost prefixProject)
     (Uri_joinPath (Uri_file sampleCwd) [js ''include'', js ''gnuradio'', js ''mymod'']) =
     Inr [(js ''foo.h'', FileType_File), (js ''foobar.h'', FileType_File)]"
  "readDirectory (sampleHost prefixProject)
     (Uri_joinPath (Uri_file sampleCwd) [js ''python'', js ''mymod'']) =
     Inr [(js ''__init__.py'', FileType_File), (js ''foo.py'', FileType_File),
          (js ''foobar.py'', FileType_File), (js ''qa_foobar.py'', FileType_File)]"
  "readDirectory (sampleHost prefixProject) (Uri_joinPath (Uri_file sampleCwd) [js ''lib'']) =
     Inr [(js ''foo_impl.cc'', FileType_File), (js ''foobar_impl.cc'', FileType_File),
          (js ''foobar_impl.h'', FileType_File), (js ''qa_foobar.cc'', FileType_File)]"
  by code_simp+

lemma prefixProject_foo:
  "getBlockFilesTree (sampleHost prefixProject) specBlocks (js ''foo'') (Uri_file sampleCwd)
      (js ''mymod'') =
     Inr (blockFileItems (Uri_file sampleCwd) (js ''mymod'')
       [(js ''mymod_foo.block.yml'', FileType_File), (js ''mymod_foobar.xml'', FileType_File)]
       [(js ''foo.py'', FileType_File), (js ''foobar.py'', FileType_File)]
       [(js ''foo.h'', FileType_File), (js ''foobar.h'', FileType_File)]
       [(js ''foo_impl.cc'', FileType_File), (js ''foobar_impl.cc'', FileType_File),
        (js ''foobar_impl.h'', FileType_File)]
       []
       [])"
  by code_simp

lemma prefixProject_foobar_py:
  "startsWith (js ''foobar.py'') (js ''foobar'') \<and>
   filterPyBlocks specBlocks (js ''foobar.py'')"
  by code_simp

lemma prefixProject_foobar_entries:
  "startsWith (js ''mymod_foobar.xml'') (js ''mymod'' @ js ''_'' @ js ''foobar'') \<and>
   (filterGrcBlocks specBlocks (js ''mymod_foobar.xml'') \<or>
    filterXmlBlocks specBlocks (js ''mymod_foobar.xml''))"
  "startsWith (js ''foobar.h'') (js ''foobar'') \<and> filterCppBlocks specBlocks (js ''foobar.h'')"
  "startsWith (js ''foobar_impl.h'') (js ''foobar'') \<and>
   (filterCppImplFiles specBlocks (js ''foobar_impl.h'') \<or>
    extname (js ''foobar_impl.h'') = js ''.h'')"
  "extname (js ''foobar_impl.h'') = js ''.h''"
  by code_simp+

lemma grcDirEntryProject_reached:
  "nonFileEntryReached (sampleHost grcDirEntryProject) specBlocks (js ''foo'') (Uri_file sampleCwd)
     (js ''mymod'')"
  by code_simp

lemma grcDirEntryProject_include:
  "readDirectory (sampleHost grcDirEntryProject)
     (Uri_joinPath (Uri_file sampleCwd) [js ''include'', js ''gnuradio'', js ''mymod'']) =
   Inl FileNotFound"
  by code_simp

section \<open>The claims about getBlockFilesTree\<close>

text \<open>
  Claim C2. Whenever \<open>getBlockFilesTree\<close> returns a list, the list is ordered by role as
  the presentation order of the specification has it: the ranks of the labels never
  decrease along the list, and every label is one of the roles.
\<close>

theorem getBlockFilesTree_presentation_order:
  assumes "getBlockFilesTree h blocks block baseUri moduleName = Inr items"
  shows "sorted (map (\<lambda>item. roleRank (label item)) items) \<and>
         list_all (\<lambda>item. roleRank (label item) < 6) items"
proof -
  from getBlockFilesTree_Inr_listable [OF assms] obtain grcDir cppDir pyDir cppImplDir where
    dirs: "readDirectory h (Uri_joinPath baseUri [js ''grc'']) = Inr grcDir"
      "readDirectory h (Uri_joinPath baseUri [js ''include'', js ''gnuradio'', moduleName]) = Inr cppDir"
      "readDirectory h (Uri_joinPath baseUri [js ''python'', moduleName]) = Inr pyDir"
      "readDirectory h (Uri_joinPath baseUri [js ''lib'']) = Inr cppImplDir"
    by blast
  from assms dirs obtain cppTestEntries where
    "items = blockFileItems baseUri moduleName
       (filter (grcFilter blocks block moduleName) grcDir)
       (filter (pyFilter blocks block) pyDir)
       (filter (cppFilter blocks block) cppDir)
       (filter (cppImplFilter blocks block) cppImplDir)
       (filter (pyTestFilter blocks block) pyDir)
       cppTestEntries"
    by (rule getBlockFilesTree_Inr_sections)
  then show ?thesis
    by (simp only: blockFileItems_order blockFileItems_roles simp_thms)
qed


theorem getBlockFilesTree_presentation_order_witness:
  "getBlockFilesTree (sampleHost mymodProject) specBlocks (js ''foo'') (Uri_file sampleCwd)
      (js ''mymod'') =
     Inr (blockFileItems (Uri_file sampleCwd) (js ''mymod'')
       [(js ''mymod_foo.block.yml'', FileType_File), (js ''mymod_foobar.block.yml'', FileType_File)]
       []
       [(js ''foo.h'', FileType_File), (js ''foobar.h'', FileType_File)]
       [(js ''foo_impl.cc'', FileType_File), (js ''foo_impl.h'', FileType_File),
        (js ''foobar_impl.cc'', FileType_File)]
       [(js ''qa_foo.py'', FileType_File)]
       [(js ''qa_foo.cc'', FileType_File)])
   \<and> sorted (map (\<lambda>item. roleRank (label item))
       (blockFileItems (Uri_file sampleCwd) (js ''mymod'')
         [(js ''mymod_foo.block.yml'', FileType_File), (js ''mymod_foobar.block.yml'', FileType_File)]
         []
         [(js ''foo.h'', FileType_File), (js ''foobar.h'', FileType_File)]
         [(js ''foo_impl.cc'', FileType_File), (js ''foo_impl.h'', FileType_File),
          (js ''foobar_impl.cc'', FileType_File)]
         [(js ''qa_foo.py'', FileType_File)]
         [(js ''qa_foo.cc'', FileType_File)]))"
  using getBlockFilesTree_presentation_order [OF mymodProject_foo] mymodProject_foo
  by (simp only: simp_thms)





text \<open>
  Claim C9. Let \<open>a\<close> be a prefix of \<open>b\<close> and let the query for \<open>a\<close> return a list. Then
  the list holds the files of \<open>b\<close> in four sections: every entry of \<open>grc\<close> whose name
  starts with the module name, an underscore and \<open>b\<close> and passes \<open>filterGrcBlocks\<close> or
  \<open>filterXmlBlocks\<close> is listed as a block definition; every entry of the include
  directory whose name starts with \<open>b\<close> and passes \<open>filterCppBlocks\<close> as a public header;
  every entry of the Python directory whose name starts with \<open>b\<close> and passes
  \<open>filterPyBlocks\<close> as an implementation; and every entry of \<open>lib\<close> whose name starts
  with \<open>b\<close> and passes \<open>filterCppImplFiles\<close> or has the extension \<open>.h\<close> as an
  implementation source or header. Each item is named by its label and its path.
\<close>

theorem getBlockFilesTree_prefix_includes:
  assumes pre: "startsWith b a"
    and A: "getBlockFilesTree h blocks a baseUri moduleName = Inr itemsA"
    and grc: "readDirectory h (Uri_joinPath baseUri [js ''grc'']) = Inr grcDir"
    and cpp: "readDirectory h (Uri_joinPath baseUri [js ''include'', js ''gnuradio'', moduleName]) = Inr cppDir"
    and py: "readDirectory h (Uri_joinPath baseUri [js ''python'', moduleName]) = Inr pyDir"
    and lib: "readDirectory h (Uri_joinPath baseUri [js ''lib'']) = Inr cppImplDir"
  shows "(\<forall>entry\<in>set grcDir.
            startsWith (fst entry) (moduleName @ js ''_'' @ b) \<and>
            (filterGrcBlocks blocks (fst entry) \<or> filterXmlBlocks blocks (fst entry)) \<longrightarrow>
            (\<exists>item\<in>set itemsA. label item = js ''Block definition'' \<and>
               resourceUri item = Uri_joinPath baseUri [js ''grc'', fst entry]))
     \<and> (\<forall>entry\<in>set cppDir.
            startsWith (fst entry) b \<and> filterCppBlocks blocks (fst entry) \<longrightarrow>
            (\<exists>item\<in>set itemsA. label item = js ''Public header'' \<and>
               resourceUri item =
                 Uri_joinPath baseUri [js ''include'', js ''gnuradio'', moduleName, fst entry]))
     \<and> (\<forall>entry\<in>set pyDir.
            startsWith (fst entry) b \<and> filterPyBlocks blocks (fst entry) \<longrightarrow>
            (\<exists>item\<in>set itemsA. label item = js ''Implementation'' \<and>
               resourceUri item = Uri_joinPath baseUri [js ''python'', moduleName, fst entry]))
     \<and> (\<forall>entry\<in>set cppImplDir.
            startsWith (fst entry) b \<and>
            (filterCppImplFiles blocks (fst entry) \<or> extname (fst entry) = js ''.h'') \<longrightarrow>
            (\<exists>item\<in>set itemsA.
               label item = (if extname (fst entry) = js ''.h'' then js ''Implementation header''
                             else js ''Implementation source'') \<and>
               resourceUri item = Uri_joinPath baseUri [js ''lib'', fst entry]))"
proof -
  from A grc cpp py lib obtain testsA where
    itemsA: "itemsA = blockFileItems baseUri moduleName
       (filter (grcFilter blocks a moduleName) grcDir)
       (filter (pyFilter blocks a) pyDir)
       (filter (cppFilter blocks a) cppDir)
       (filter (cppImplFilter blocks a) cppImplDir)
       (filter (pyTestFilter blocks a) pyDir)
       testsA"
    by (rule getBlockFilesTree_Inr_sections)
  have starts: "startsWith name (m @ a)" if "startsWith name (m @ b)" for name m
    using that pre by (rule startsWith_trans)
  have grcI: "\<exists>item\<in>set itemsA. label item = js ''Block definition'' \<and>
      resourceUri item = Uri_joinPath baseUri [js ''grc'', fst entry]"
    if "entry \<in> set grcDir" "startsWith (fst entry) (moduleName @ js ''_'' @ b)"
      "filterGrcBlocks blocks (fst entry) \<or> filterXmlBlocks blocks (fst entry)" for entry
  proof -
    from that(2) have "startsWith (fst entry) ((moduleName @ js ''_'') @ b)"
      by simp
    then have "startsWith (fst entry) ((moduleName @ js ''_'') @ a)"
      by (rule starts)
    with that(3) have "grcFilter blocks a moduleName entry"
      by (simp add: grcFilter_def)
    with that(1) have "treeItem baseUri (js ''Block definition'') [js ''grc''] (fst entry) \<in> set itemsA"
      by (simp add: itemsA blockFileItems_def)
    then show ?thesis
      by (rule bexI [rotated]) (simp add: label_treeItem resourceUri_treeItem)
  qed
  have cppI: "\<exists>item\<in>set itemsA. label item = js ''Public header'' \<and>
      resourceUri item =
        Uri_joinPath baseUri [js ''include'', js ''gnuradio'', moduleName, fst entry]"
    if "entry \<in> set cppDir" "startsWith (fst entry) b" "filterCppBlocks blocks (fst entry)"
    for entry
  proof -
    from that(2) starts [of "fst entry" "[]"] that(3) have "cppFilter blocks a entry"
      by (simp add: cppFilter_def)
    with that(1) have "treeItem baseUri (js ''Public header'')
        [js ''include'', js ''gnuradio'', moduleName] (fst entry) \<in> set itemsA"
      by (simp add: itemsA blockFileItems_def)
    then show ?thesis
      by (rule bexI [rotated]) (simp add: label_treeItem resourceUri_treeItem)
  qed
  have pyI: "\<exists>item\<in>set itemsA. label item = js ''Implementation'' \<and>
      resourceUri item = Uri_joinPath baseUri [js ''python'', moduleName, fst entry]"
    if "entry \<in> set pyDir" "startsWith (fst entry) b" "filterPyBlocks blocks (fst entry)"
    for entry
  proof -
    from that(2) starts [of "fst entry" "[]"] that(3) have "pyFilter blocks a entry"
      by (simp add: pyFilter_def)
    with that(1) have "treeItem baseUri (js ''Implementation'') [js ''python'', moduleName]
        (fst entry) \<in> set itemsA"
      by (simp add: itemsA blockFileItems_def)
    then show ?thesis
      by (rule bexI [rotated]) (simp add: label_treeItem resourceUri_treeItem)
  qed
  have implI: "\<exists>item\<in>set itemsA.
      label item = (if extname (fst entry) = js ''.h'' then js ''Implementation header''
                    else js ''Implementation source'') \<and>
      resourceUri item = Uri_joinPath baseUri [js ''lib'', fst entry]"
    if "entry \<in> set cppImplDir" "startsWith (fst entry) b"
      "filterCppImplFiles blocks (fst entry) \<or> extname (fst entry) = js ''.h''" for entry
  proof -
    from that(2) starts [of "fst entry" "[]"] that(3) have "cppImplFilter blocks a entry"
      by (simp add: cppImplFilter_def)
    with that(1) have "cppImplItem baseUri (fst entry) \<in> set itemsA"
      by (simp add: itemsA blockFileItems_def)
    then show ?thesis
      by (rule bexI [rotated]) (simp add: label_cppImplItem resourceUri_cppImplItem)
  qed
  from grcI cppI pyI implI show ?thesis
    by blast
qed

theorem getBlockFilesTree_prefix_includes_witness:
  "startsWith (js ''foobar'') (js ''foo'') \<and> js ''foo'' \<noteq> js ''foobar'' \<and>
   (\<exists>items.
      getBlockFilesTree (sampleHost prefixProject) specBlocks (js ''foo'') (Uri_file sampleCwd)
        (js ''mymod'') = Inr items \<and>
      (\<exists>item\<in>set items. label item = js ''Block definition'' \<and>
         resourceUri item =
           Uri_joinPath (Uri_file sampleCwd) [js ''grc'', js ''mymod_foobar.xml'']) \<and>
      (\<exists>item\<in>set items. label item = js ''Public header'' \<and>
         resourceUri item =
           Uri_joinPath (Uri_file sampleCwd)
             [js ''include'', js ''gnuradio'', js ''mymod'', js ''foobar.h'']) \<and>
      (\<exists>item\<in>set items. label item = js ''Implementation'' \<and>
         resourceUri item =
           Uri_joinPath (Uri_file sampleCwd) [js ''python'', js ''mymod'', js ''foobar.py'']) \<and>
      (\<exists>item\<in>set items. label item = js ''Implementation header'' \<and>
         resourceUri item =
           Uri_joinPath (Uri_file sampleCwd) [js ''lib'', js ''foobar_impl.h'']))"
proof -
  have pre: "startsWith (js ''foobar'') (js ''foo'')"
    by code_simp
  have proper: "js ''foo'' \<noteq> js ''foobar''"
    by (simp add: js_def)
  note incl = getBlockFilesTree_prefix_includes [OF pre prefixProject_foo prefixProject_listings]
  from incl [THEN conjunct1, rule_format, of "(js ''mymod_foobar.xml'', FileType_File)"]
    prefixProject_foobar_entries(1)
  have grc: "\<exists>item\<in>set (blockFileItems (Uri_file sampleCwd) (js ''mymod'')
       [(js ''mymod_foo.block.yml'', FileType_File), (js ''mymod_foobar.xml'', FileType_File)]
       [(js ''foo.py'', FileType_File), (js ''foobar.py'', FileType_File)]
       [(js ''foo.h'', FileType_File), (js ''foobar.h'', FileType_File)]
       [(js ''foo_impl.cc'', FileType_File), (js ''foobar_impl.cc'', FileType_File),
        (js ''foobar_impl.h'', FileType_File)]
       []
       []). label item = js ''Block definition'' \<and>
         resourceUri item =
           Uri_joinPath (Uri_file sampleCwd) [js ''grc'', js ''mymod_foobar.xml'']"
    by simp
  from incl [THEN conjunct2, THEN conjunct1, rule_format, of "(js ''foobar.h'', FileType_File)"]
    prefixProject_foobar_entries(2)
  have cpp: "\<exists>item\<in>set (blockFileItems (Uri_file sampleCwd) (js ''mymod'')
       [(js ''mymod_foo.block.yml'', FileType_File), (js ''mymod_foobar.xml'', FileType_File)]
       [(js ''foo.py'', FileType_File), (js ''foobar.py'', FileType_File)]
       [(js ''foo.h'', FileType_File), (js ''foobar.h'', FileType_File)]
       [(js ''foo_impl.cc'', FileType_File), (js ''foobar_impl.cc'', FileType_File),
        (js ''foobar_impl.h'', FileType_File)]
       []
       []). label item = js ''Public header'' \<and>
         resourceUri item =
           Uri_joinPath (Uri_file sampleCwd)
             [js ''include'', js ''gnuradio'', js ''mymod'', js ''foobar.h'']"
    by simp
  from incl [THEN conjunct2, THEN conjunct2, THEN conjunct1, rule_format,
      of "(js ''foobar.py'', FileType_File)"] prefixProject_foobar_py
  have py: "\<exists>item\<in>set (blockFileItems (Uri_file sampleCwd) (js ''mymod'')
       [(js ''mymod_foo.block.yml'', FileType_File), (js ''mymod_foobar.xml'', FileType_File)]
       [(js ''foo.py'', FileType_File), (js ''foobar.py'', FileType_File)]
       [(js ''foo.h'', FileType_File), (js ''foobar.h'', FileType_File)]
       [(js ''foo_impl.cc'', FileType_File), (js ''foobar_impl.cc'', FileType_File),
        (js ''foobar_impl.h'', FileType_File)]
       []
       []). label item = js ''Implementation'' \<and>
         resourceUri item =
           Uri_joinPath (Uri_file sampleCwd) [js ''python'', js ''mymod'', js ''foobar.py'']"
    by simp
  from incl [THEN conjunct2, THEN conjunct2, THEN conjunct2, rule_format,
      of "(js ''foobar_impl.h'', FileType_File)"] prefixProject_foobar_entries(3,4)
  have impl: "\<exists>item\<in>set (blockFileItems (Uri_file sampleCwd) (js ''mymod'')
       [(js ''mymod_foo.block.yml'', FileType_File), (js ''mymod_foobar.xml'', FileType_File)]
       [(js ''foo.py'', FileType_File), (js ''foobar.py'', FileType_File)]
       [(js ''foo.h'', FileType_File), (js ''foobar.h'', FileType_File)]
       [(js ''foo_impl.cc'', FileType_File), (js ''foobar_impl.cc'', FileType_File),
        (js ''foobar_impl.h'', FileType_File)]
       []
       []). label item = js ''Implementation header'' \<and>
         resourceUri item =
           Uri_joinPath (Uri_file sampleCwd) [js ''lib'', js ''foobar_impl.h'']"
    by simp
  from pre proper prefixProject_foo grc cpp py impl show ?thesis
    by blast
qed

text \<open>
  Claim C10, as the code has it. The project \<open>libDirEntryProject\<close> has no \<open>grc\<close>
  directory, and its \<open>lib\<close> holds a directory \<open>foo_impl.cc\<close>, which passes the filter
  of the library implementations for \<open>foo\<close>. The query for \<open>foo\<close> fails, but with the
  error of listing \<open>grc\<close>, not with \<open>Expected a file, got something else\<close>.
\<close>

theorem getBlockFilesTree_non_file_entry_counterexample:
  "readDirectory (sampleHost libDirEntryProject) (Uri_joinPath (Uri_file sampleCwd) [js ''lib'']) =
     Inr [(js ''foo_impl.cc'', FileType_Directory)]
   \<and> cppImplFilter specBlocks (js ''foo'') (js ''foo_impl.cc'', FileType_Directory)
   \<and> \<not> isFile (js ''foo_impl.cc'', FileType_Directory)
   \<and> getBlockFilesTree (sampleHost libDirEntryProject) specBlocks (js ''foo'') (Uri_file sampleCwd)
       (js ''mymod'') = Inl (FsError FileNotFound)"
  by code_simp

text \<open>
  Claim C10, amended. When a facet directory that can be listed holds an entry that
  passes one of the six filters for the queried block and is not a regular file,
  \<open>getBlockFilesTree\<close> returns no list: the entry is not skipped, the query fails. When
  moreover the directories listed before the section of that entry can be listed, the
  error is \<open>Expected a file, got something else\<close>.
\<close>

theorem getBlockFilesTree_non_file_entry:
  "(nonFileEntry h blocks block baseUri moduleName \<longrightarrow>
      (\<exists>err. getBlockFilesTree h blocks block baseUri moduleName = Inl err))
   \<and> (nonFileEntryReached h blocks block baseUri moduleName \<longrightarrow>
      getBlockFilesTree h blocks block baseUri moduleName =
        Inl (JsError (js ''Expected a file, got something else'')))"
proof (intro conjI impI)
  assume "nonFileEntry h blocks block baseUri moduleName"
  then have "\<And>items. getBlockFilesTree h blocks block baseUri moduleName \<noteq> Inr items"
    by (rule nonFileEntry_no_list)
  then show "\<exists>err. getBlockFilesTree h blocks block baseUri moduleName = Inl err"
    by (cases "getBlockFilesTree h blocks block baseUri moduleName") auto
next
  assume "nonFileEntryReached h blocks block baseUri moduleName"
  then show "getBlockFilesTree h blocks block baseUri moduleName =
      Inl (JsError (js ''Expected a file, got something else''))"
    unfolding nonFileEntryReached_def
    by (auto intro: non_file_in_grc non_file_in_cpp non_file_in_py non_file_in_lib
        split: sum.splits)
qed


theorem getBlockFilesTree_non_file_entry_witness:
  "nonFileEntryReached (sampleHost grcDirEntryProject) specBlocks (js ''foo'') (Uri_file sampleCwd)
     (js ''mymod'')
   \<and> readDirectory (sampleHost grcDirEntryProject)
       (Uri_joinPath (Uri_file sampleCwd) [js ''include'', js ''gnuradio'', js ''mymod'']) =
     Inl FileNotFound
   \<and> getBlockFilesTree (sampleHost grcDirEntryProject) specBlocks (js ''foo'') (Uri_file sampleCwd)
       (js ''mymod'') = Inl (JsError (js ''Expected a file, got something else''))"
  using getBlockFilesTree_non_file_entry [of "sampleHost grcDirEntryProject" specBlocks "js ''foo''"
      "Uri_file sampleCwd" "js ''mymod''"]
    grcDirEntryProject_reached grcDirEntryProject_include
  by (simp only: simp_thms)

section \<open>The claims about name resolution\<close>

lemma sampleRegExp_word:
  "list_all isWordChar p \<Longrightarrow> RegExp (sampleHost dirs) p = Some (\<lambda>s. isSubstring s p)"
  by (simp add: sampleHost_def sampleRegExp_def)

lemma wordChars_foo: "list_all isWordChar (js ''foo'')"
  by code_simp

lemma wordChars_oo: "list_all isWordChar (js ''oo'')"
  by code_simp

lemma foo_matches_foobar: "isSubstring (js ''foobar'') (js ''foo'')"
  by code_simp

lemma oo_matches:
  "filter (\<lambda>s. isSubstring s (js ''oo'')) [js ''foo'', js ''bar'', js ''foobar''] =
     [js ''foo'', js ''foobar'']"
  by code_simp

lemma regex_resolution_syntax_error:
  assumes "p \<notin> set S" and "RegExp h p = None"
  shows "disableBlock_prompt h S p = Inl (SyntaxError p)"
    and "removeBlock_prompt h blocks S cwd moduleName p = Inl (SyntaxError p)"
    and "S \<noteq> [] \<Longrightarrow> createPythonBindings_successMessage h S moduleName p = Inl (SyntaxError p)"
  using assms
  by (simp_all add: disableBlock_prompt_def removeBlock_prompt_def
      createPythonBindings_successMessage_def)

text \<open>
  Claim C5. When the name is one of the existing blocks, each of the three functions
  takes its first branch and addresses that single block: \<open>disableBlock\<close> asks about
  the one name and lists no other block, \<open>removeBlock\<close> lists the files of that block
  only, and \<open>createPythonBindings\<close> reports the binding file of that block. The host's
  \<open>RegExp\<close> is not consulted, whatever it would match.
\<close>

theorem exact_match_precedence:
  assumes "c \<in> set S"
  shows "disableBlock_prompt h S c =
       Inr \<lparr>warningMessage =
              js ''Are you sure you want to disable '' @ dquote @ c @ dquote @ js ''?'',
            successMessage = js ''Block '' @ dquote @ c @ dquote @ js '' was disabled'',
            detailMessage = []\<rparr>
     \<and> removeBlock_prompt h blocks S cwd moduleName c =
       andThen (getBlockFilesTree h blocks c (Uri_file cwd) moduleName) (\<lambda>items.
         Inr \<lparr>warningMessage =
                js ''Are you sure you want to remove '' @ dquote @ c @ dquote @ js ''?'',
              successMessage = js ''Block '' @ dquote @ c @ dquote @ js '' was removed'',
              detailMessage = js ''The following files will be deleted:'' #
                map (\<lambda>item. drop (length cwd + 1) (fsPath h (resourceUri item))) items\<rparr>)
     \<and> createPythonBindings_successMessage h S moduleName c =
       Inr (js ''Python bindings written to '' @ dquote @
            join h [js ''python'', moduleName, js ''bindings'', c @ js ''_python.cc''] @ dquote)"
  using assms
  by (auto simp add: disableBlock_prompt_def removeBlock_prompt_def
      createPythonBindings_successMessage_def)

theorem exact_match_precedence_witness:
  "js ''foo'' \<in> set [js ''foo'', js ''foobar'']
   \<and> RegExp (sampleHost mymodProject) (js ''foo'') = Some (\<lambda>s. isSubstring s (js ''foo''))
   \<and> isSubstring (js ''foobar'') (js ''foo'')
   \<and> disableBlock_prompt (sampleHost mymodProject) [js ''foo'', js ''foobar''] (js ''foo'') =
       Inr \<lparr>warningMessage =
              js ''Are you sure you want to disable '' @ dquote @ js ''foo'' @ dquote @ js ''?'',
            successMessage = js ''Block '' @ dquote @ js ''foo'' @ dquote @ js '' was disabled'',
            detailMessage = []\<rparr>"
proof -
  have mem: "js ''foo'' \<in> set [js ''foo'', js ''foobar'']"
    by simp
  from exact_match_precedence [OF mem, of "sampleHost mymodProject"] mem
    sampleRegExp_word [OF wordChars_foo, of mymodProject] foo_matches_foobar
  show ?thesis
    by (simp only: simp_thms)
qed

text \<open>
  Claim C6. When the name is not an existing block and the host accepts it as a regular
  expression, \<open>disableBlock\<close> and \<open>removeBlock\<close> list exactly the existing blocks in
  which \<open>test\<close> of the expression built from the unchanged name finds a match: a
  subset of the existing blocks, empty exactly when the expression matches none.
\<close>

theorem regex_resolution_filter:
  assumes "p \<notin> set S" and "RegExp h p = Some test"
  shows "disableBlock_prompt h S p =
       Inr \<lparr>warningMessage = js ''Are you sure you want to disable multiple blocks?'',
            successMessage = js ''Matching blocks were disabled: '',
            detailMessage = js ''The following blocks will be disabled:'' #
              map (\<lambda>block. dquote @ block @ dquote) (filter test S)\<rparr>
     \<and> removeBlock_prompt h blocks S cwd moduleName p =
       Inr \<lparr>warningMessage = js ''Are you sure you want to remove multiple blocks?'',
            successMessage = js ''Matching blocks were removed: '' @
              joinWith (js '', '') (map (\<lambda>block. dquote @ block @ dquote) (filter test S)),
            detailMessage = js ''The following blocks will be removed:'' #
              map (\<lambda>block. dquote @ block @ dquote) (filter test S)\<rparr>
     \<and> set (filter test S) = {b \<in> set S. test b}
     \<and> set (filter test S) \<subseteq> set S
     \<and> (filter test S = [] \<longleftrightarrow> \<not> (\<exists>b\<in>set S. test b))"
  using assms
  by (simp add: disableBlock_prompt_def removeBlock_prompt_def filter_empty_conv)

theorem regex_resolution_filter_witness:
  "js ''oo'' \<notin> set [js ''foo'', js ''bar'', js ''foobar'']
   \<and> RegExp (sampleHost mymodProject) (js ''oo'') = Some (\<lambda>s. isSubstring s (js ''oo''))
   \<and> disableBlock_prompt (sampleHost mymodProject) [js ''foo'', js ''bar'', js ''foobar'']
       (js ''oo'') =
       Inr \<lparr>warningMessage = js ''Are you sure you want to disable multiple blocks?'',
            successMessage = js ''Matching blocks were disabled: '',
            detailMessage = js ''The following blocks will be disabled:'' #
              map (\<lambda>block. dquote @ block @ dquote) [js ''foo'', js ''foobar'']\<rparr>"
proof -
  have new: "js ''oo'' \<notin> set [js ''foo'', js ''bar'', js ''foobar'']"
    by (simp add: js_def)
  note re = sampleRegExp_word [OF wordChars_oo, of mymodProject]
  from regex_resolution_filter [OF new re] new re show ?thesis
    by (simp only: oo_matches simp_thms)
qed

section \<open>The claims about the inventory\<close>

lemma specBlocks_simps:
  "filterGrcBlocks specBlocks = spec_filterGrcBlocks"
  "filterXmlBlocks specBlocks = spec_filterXmlBlocks"
  "filterCppBlocks specBlocks = spec_filterCppBlocks"
  "filterPyBlocks specBlocks = spec_filterPyBlocks"
  "filterBlockTests specBlocks = spec_filterBlockTests"
  "filterCppImplFiles specBlocks = spec_filterCppImplFiles"
  by (simp_all add: specBlocks_def)

lemma startsWith_take: "startsWith s (take n s)"
  by (simp add: startsWith_def min_def)

lemma startsWith_stripExtname: "startsWith name (stripExtname name)"
  by (simp add: stripExtname_def startsWith_take)

lemma startsWith_spec_mapCppImplFiles: "startsWith name (spec_mapCppImplFiles name)"
  by (simp add: spec_mapCppImplFiles_def Let_def stripExtname_def startsWith_take)

lemma spec_mapGrcBlocks_Some:
  assumes "spec_mapGrcBlocks moduleName ext name = Some b"
  shows "startsWith name (moduleName @ js ''_'' @ b)" and "endsWith name ext"
proof -
  from assms have pre: "startsWith name (moduleName @ js ''_'')"
    and suf: "endsWith name ext"
    and len: "length moduleName + 1 + length ext \<le> length name"
    and b: "b = drop (length moduleName + 1) (take (length name - length ext) name)"
    by (auto simp add: spec_mapGrcBlocks_def split: if_splits)
  from pre have "take (length moduleName + 1) name = moduleName @ js ''_''"
    by (simp add: startsWith_def js_def)
  moreover from len
  have "take (length moduleName + 1) name =
      take (length moduleName + 1) (take (length name - length ext) name)"
    by (simp add: min_def)
  ultimately have "moduleName @ js ''_'' @ b = take (length name - length ext) name"
    unfolding b by (metis append.assoc append_take_drop_id)
  then show "startsWith name (moduleName @ js ''_'' @ b)"
    by (simp add: startsWith_take)
  from suf show "endsWith name ext" .
qed

lemma in_map_filter:
  "y \<in> set (List.map_filter f xs) \<Longrightarrow> \<exists>x\<in>set xs. f x = Some y"
  by (auto simp add: List.map_filter_def)

lemma listNames_listed:
  "readDirectory h (Uri_joinPath root segs) = Inr entries \<Longrightarrow> listNames h root segs = map fst entries"
  by (simp add: listNames_def)

lemma filter_nonempty: "e \<in> set xs \<Longrightarrow> P e \<Longrightarrow> filter P xs \<noteq> []"
  by (auto simp add: filter_empty_conv)

lemma blockFileItems_nonempty:
  "gs \<noteq> [] \<or> ps \<noteq> [] \<or> cs \<noteq> [] \<or> is \<noteq> [] \<Longrightarrow>
   blockFileItems baseUri moduleName gs ps cs is pts cts \<noteq> []"
  by (auto simp add: blockFileItems_def)









lemma mymodProject_inventory:
  "getAllBlocks (sampleHost mymodProject) sampleCwd (js ''mymod'') =
     Inr {js ''foo'', js ''foobar''}"
  by code_simp




text \<open>
  Claim C1, as the code has it. The project \<open>libOnlyProject\<close> has no \<open>grc\<close> directory.
  Its inventory, for which a missing directory counts as no match, is the block \<open>foo\<close>;
  the correlation query for \<open>foo\<close> returns no list, it fails on the listing of \<open>grc\<close>.
\<close>

theorem inventory_block_without_list_counterexample:
  "getAllBlocks (sampleHost libOnlyProject) sampleCwd (js ''mymod'') = Inr {js ''foo''}
   \<and> getBlockFilesTree (sampleHost libOnlyProject) specBlocks (js ''foo'') (Uri_file sampleCwd)
       (js ''mymod'') = Inl (FsError FileNotFound)"
  by code_simp

text \<open>
  Claim C1, amended. For every block of the inventory, a correlation query that returns
  a list returns a list that is not empty.
\<close>

theorem inventory_block_has_files:
  assumes inv: "getAllBlocks h cwd moduleName = Inr inventory"
    and b: "b \<in> inventory"
    and A: "getBlockFilesTree h specBlocks b (Uri_file cwd) moduleName = Inr items"
  shows "items \<noteq> []"
proof -
  from getBlockFilesTree_Inr_listable [OF A] obtain grcDir cppDir pyDir cppImplDir where
    dirs: "readDirectory h (Uri_joinPath (Uri_file cwd) [js ''grc'']) = Inr grcDir"
      "readDirectory h (Uri_joinPath (Uri_file cwd) [js ''include'', js ''gnuradio'', moduleName]) = Inr cppDir"
      "readDirectory h (Uri_joinPath (Uri_file cwd) [js ''python'', moduleName]) = Inr pyDir"
      "readDirectory h (Uri_joinPath (Uri_file cwd) [js ''lib'']) = Inr cppImplDir"
    by blast
  from A dirs obtain tests where
    items: "items = blockFileItems (Uri_file cwd) moduleName
       (filter (grcFilter specBlocks b moduleName) grcDir)
       (filter (pyFilter specBlocks b) pyDir)
       (filter (cppFilter specBlocks b) cppDir)
       (filter (cppImplFilter specBlocks b) cppImplDir)
       (filter (pyTestFilter specBlocks b) pyDir)
       tests"
    by (rule getBlockFilesTree_Inr_sections)
  from inv b have "b \<in> set (cppBlockNames h (Uri_file cwd) moduleName) \<or>
      b \<in> set (grcBlockNames h (Uri_file cwd) moduleName (js ''.block.yml'')) \<or>
      b \<in> set (grcBlockNames h (Uri_file cwd) moduleName (js ''.xml'')) \<or>
      b \<in> set (pyBlockNames h (Uri_file cwd) moduleName) \<or>
      b \<in> set (cppImplBlockNames h (Uri_file cwd))"
    by (auto simp add: getAllBlocks_def whenListable_def split: sum.splits)
  then consider
      (cpp) e where "e \<in> set cppDir" "spec_filterCppBlocks (fst e)" "b = stripExtname (fst e)"
    | (yml) e where "e \<in> set grcDir" "spec_mapGrcBlocks moduleName (js ''.block.yml'') (fst e) = Some b"
    | (xml) e where "e \<in> set grcDir" "spec_mapGrcBlocks moduleName (js ''.xml'') (fst e) = Some b"
    | (py) e where "e \<in> set pyDir" "spec_filterPyBlocks (fst e)" "b = stripExtname (fst e)"
    | (impl) e where "e \<in> set cppImplDir" "spec_filterCppImplFiles (fst e)"
        "b = spec_mapCppImplFiles (fst e)"
    by (auto simp add: cppBlockNames_def grcBlockNames_def pyBlockNames_def cppImplBlockNames_def
        listNames_listed [OF dirs(1)] listNames_listed [OF dirs(2)] listNames_listed [OF dirs(3)]
        listNames_listed [OF dirs(4)] dest!: in_map_filter)
  then have "filter (grcFilter specBlocks b moduleName) grcDir \<noteq> [] \<or>
      filter (pyFilter specBlocks b) pyDir \<noteq> [] \<or>
      filter (cppFilter specBlocks b) cppDir \<noteq> [] \<or>
      filter (cppImplFilter specBlocks b) cppImplDir \<noteq> []"
  proof cases
    case cpp
    then have "cppFilter specBlocks b e"
      by (simp add: cppFilter_def specBlocks_simps startsWith_stripExtname)
    with cpp(1) have "filter (cppFilter specBlocks b) cppDir \<noteq> []"
      by (rule filter_nonempty)
    then show ?thesis
      by simp
  next
    case yml
    from spec_mapGrcBlocks_Some [OF yml(2)] have "grcFilter specBlocks b moduleName e"
      by (simp add: grcFilter_def specBlocks_simps spec_filterGrcBlocks_def)
    with yml(1) have "filter (grcFilter specBlocks b moduleName) grcDir \<noteq> []"
      by (rule filter_nonempty)
    then show ?thesis
      by simp
  next
    case xml
    from spec_mapGrcBlocks_Some [OF xml(2)] have "grcFilter specBlocks b moduleName e"
      by (simp add: grcFilter_def specBlocks_simps spec_filterXmlBlocks_def)
    with xml(1) have "filter (grcFilter specBlocks b moduleName) grcDir \<noteq> []"
      by (rule filter_nonempty)
    then show ?thesis
      by simp
  next
    case py
    then have "pyFilter specBlocks b e"
      by (simp add: pyFilter_def specBlocks_simps startsWith_stripExtname)
    with py(1) have "filter (pyFilter specBlocks b) pyDir \<noteq> []"
      by (rule filter_nonempty)
    then show ?thesis
      by simp
  next
    case impl
    then have "cppImplFilter specBlocks b e"
      by (simp add: cppImplFilter_def specBlocks_simps startsWith_spec_mapCppImplFiles)
    with impl(1) have "filter (cppImplFilter specBlocks b) cppImplDir \<noteq> []"
      by (rule filter_nonempty)
    then show ?thesis
      by simp
  qed
  then show ?thesis
    unfolding items by (rule blockFileItems_nonempty)
qed

theorem inventory_block_has_files_witness:
  "getAllBlocks (sampleHost mymodProject) sampleCwd (js ''mymod'') =
     Inr {js ''foo'', js ''foobar''}
   \<and> js ''foo'' \<in> {js ''foo'', js ''foobar''}
   \<and> getBlockFilesTree (sampleHost mymodProject) specBlocks (js ''foo'') (Uri_file sampleCwd)
      (js ''mymod'') =
     Inr (blockFileItems (Uri_file sampleCwd) (js ''mymod'')
       [(js ''mymod_foo.block.yml'', FileType_File), (js ''mymod_foobar.block.yml'', FileType_File)]
       []
       [(js ''foo.h'', FileType_File), (js ''foobar.h'', FileType_File)]
       [(js ''foo_impl.cc'', FileType_File), (js ''foo_impl.h'', FileType_File),
        (js ''foobar_impl.cc'', FileType_File)]
       [(js ''qa_foo.py'', FileType_File)]
       [(js ''qa_foo.cc'', FileType_File)])
   \<and> blockFileItems (Uri_file sampleCwd) (js ''mymod'')
       [(js ''mymod_foo.block.yml'', FileType_File), (js ''mymod_foobar.block.yml'', FileType_File)]
       []
       [(js ''foo.h'', FileType_File), (js ''foobar.h'', FileType_File)]
       [(js ''foo_impl.cc'', FileType_File), (js ''foo_impl.h'', FileType_File),
        (js ''foobar_impl.cc'', FileType_File)]
       [(js ''qa_foo.py'', FileType_File)]
       [(js ''qa_foo.cc'', FileType_File)] \<noteq> []"
proof -
  have mem: "js ''foo'' \<in> {js ''foo'', js ''foobar''}"
    by simp
  from inventory_block_has_files [OF mymodProject_inventory mem mymodProject_foo]
    mymodProject_inventory mem mymodProject_foo
  show ?thesis
    by (simp only: simp_thms)
qed

end
